theory Spec2Isabelle
  imports Complex_Main
begin

section \<open>JSON values and JavaScript runtime values\<close>

text \<open>
  Request bodies, log records and message objects are JSON data. An object is an association
  list of its own enumerable properties in insertion order (\<open>Object.entries\<close> order); a
  property whose value is \<open>undefined\<close> is modelled as an absent key. A number carries the
  mathematical value of its literal.
\<close>

datatype json =
    JNull
  | JBool bool
  | JNum rat
  | JStr string
  | JArr "json list"
  | JObj "(string \<times> json) list"

text \<open>JavaScript truthiness of a JSON value (\<open>!v\<close> is its negation).\<close>

fun truthy :: "json \<Rightarrow> bool" where
  "truthy JNull = False"
| "truthy (JBool b) = b"
| "truthy (JNum n) = (n \<noteq> 0)"
| "truthy (JStr s) = (s \<noteq> [])"
| "truthy (JArr xs) = True"
| "truthy (JObj kvs) = True"

text \<open>Truthiness of a property that may be absent (\<open>undefined\<close> is falsy).\<close>

fun truthy_opt :: "json option \<Rightarrow> bool" where
  "truthy_opt None = False"
| "truthy_opt (Some v) = truthy v"

section \<open>status.ts: StatusCode and Status\<close>

datatype StatusCode =
    OK
  | CANCELLED
  | UNKNOWN
  | INVALID_ARGUMENT
  | DEADLINE_EXCEEDED
  | NOT_FOUND
  | ALREADY_EXISTS
  | PERMISSION_DENIED
  | RESOURCE_EXHAUSTED
  | FAILED_PRECONDITION
  | ABORTED
  | OUT_OF_RANGE
  | UNIMPLEMENTED
  | INTERNAL
  | UNAVAILABLE
  | DATA_LOSS
  | UNAUTHENTICATED
  | FINISHED
  | RUNNING
  | SCORE_INVALID

text \<open>The numeric value the TypeScript enum gives each member.\<close>

fun StatusCode_value :: "StatusCode \<Rightarrow> nat" where
  "StatusCode_value OK = 0"
| "StatusCode_value CANCELLED = 1"
| "StatusCode_value UNKNOWN = 2"
| "StatusCode_value INVALID_ARGUMENT = 3"
| "StatusCode_value DEADLINE_EXCEEDED = 4"
| "StatusCode_value NOT_FOUND = 5"
| "StatusCode_value ALREADY_EXISTS = 6"
| "StatusCode_value PERMISSION_DENIED = 7"
| "StatusCode_value RESOURCE_EXHAUSTED = 8"
| "StatusCode_value FAILED_PRECONDITION = 9"
| "StatusCode_value ABORTED = 10"
| "StatusCode_value OUT_OF_RANGE = 11"
| "StatusCode_value UNIMPLEMENTED = 12"
| "StatusCode_value INTERNAL = 13"
| "StatusCode_value UNAVAILABLE = 14"
| "StatusCode_value DATA_LOSS = 15"
| "StatusCode_value UNAUTHENTICATED = 16"
| "StatusCode_value FINISHED = 100"
| "StatusCode_value RUNNING = 101"
| "StatusCode_value SCORE_INVALID = 102"

record ErrorInfo =
  ei_type :: string
  ei_reason :: "string option"
  ei_domain :: "string option"
  ei_metadata :: "(string \<times> json) list option"

record Status =
  st_code :: StatusCode
  st_message :: string
  st_details :: "ErrorInfo list"

definition Status_new :: "StatusCode \<Rightarrow> string \<Rightarrow> ErrorInfo list \<Rightarrow> Status" where
  "Status_new c m ds = \<lparr>st_code = c, st_message = m, st_details = ds\<rparr>"

definition buildDetailsWithExtraInfo :: "(string \<times> json) list option \<Rightarrow> ErrorInfo list" where
  "buildDetailsWithExtraInfo extraInfo =
     (case extraInfo of
        None \<Rightarrow> []
      | Some info \<Rightarrow>
          [\<lparr>ei_type = ''type.googleapis.com/google.rpc.ErrorInfo'',
            ei_reason = Some ''EXTRA_INFO'',
            ei_domain = Some ''eval-protocol.com'',
            ei_metadata = Some info\<rparr>])"

definition rolloutFinished :: Status where
  "rolloutFinished = Status_new FINISHED ''Rollout finished'' []"

definition deadlineExceededError :: "string \<Rightarrow> ErrorInfo list \<Rightarrow> Status" where
  "deadlineExceededError errorMessage ds = Status_new DEADLINE_EXCEEDED errorMessage ds"

definition rolloutDeadlineExceededError :: "string \<Rightarrow> (string \<times> json) list option \<Rightarrow> Status" where
  "rolloutDeadlineExceededError errorMessage extraInfo =
     deadlineExceededError errorMessage (buildDetailsWithExtraInfo extraInfo)"

definition invalidArgumentError :: "string \<Rightarrow> ErrorInfo list \<Rightarrow> Status" where
  "invalidArgumentError errorMessage ds = Status_new INVALID_ARGUMENT errorMessage ds"

definition rolloutInvalidArgumentError :: "string \<Rightarrow> (string \<times> json) list option \<Rightarrow> Status" where
  "rolloutInvalidArgumentError errorMessage extraInfo =
     invalidArgumentError errorMessage (buildDetailsWithExtraInfo extraInfo)"

definition notFoundError :: "string \<Rightarrow> ErrorInfo list \<Rightarrow> Status" where
  "notFoundError errorMessage ds = Status_new NOT_FOUND errorMessage ds"

definition rolloutNotFoundError :: "string \<Rightarrow> (string \<times> json) list option \<Rightarrow> Status" where
  "rolloutNotFoundError errorMessage extraInfo =
     notFoundError errorMessage (buildDetailsWithExtraInfo extraInfo)"

definition alreadyExistsError :: "string \<Rightarrow> ErrorInfo list \<Rightarrow> Status" where
  "alreadyExistsError errorMessage ds = Status_new ALREADY_EXISTS errorMessage ds"

definition rolloutAlreadyExistsError :: "string \<Rightarrow> (string \<times> json) list option \<Rightarrow> Status" where
  "rolloutAlreadyExistsError errorMessage extraInfo =
     alreadyExistsError errorMessage (buildDetailsWithExtraInfo extraInfo)"

definition permissionDeniedError :: "string \<Rightarrow> ErrorInfo list \<Rightarrow> Status" where
  "permissionDeniedError errorMessage ds = Status_new PERMISSION_DENIED errorMessage ds"

definition rolloutPermissionDeniedError :: "string \<Rightarrow> (string \<times> json) list option \<Rightarrow> Status" where
  "rolloutPermissionDeniedError errorMessage extraInfo =
     permissionDeniedError errorMessage (buildDetailsWithExtraInfo extraInfo)"

definition resourceExhaustedError :: "string \<Rightarrow> ErrorInfo list \<Rightarrow> Status" where
  "resourceExhaustedError errorMessage ds = Status_new RESOURCE_EXHAUSTED errorMessage ds"

definition rolloutResourceExhaustedError :: "string \<Rightarrow> (string \<times> json) list option \<Rightarrow> Status" where
  "rolloutResourceExhaustedError errorMessage extraInfo =
     resourceExhaustedError errorMessage (buildDetailsWithExtraInfo extraInfo)"

definition internalError :: "string \<Rightarrow> ErrorInfo list \<Rightarrow> Status" where
  "internalError errorMessage ds = Status_new INTERNAL errorMessage ds"

definition rolloutInternalError :: "string \<Rightarrow> (string \<times> json) list option \<Rightarrow> Status" where
  "rolloutInternalError errorMessage extraInfo =
     internalError errorMessage (buildDetailsWithExtraInfo extraInfo)"

definition unavailableError :: "string \<Rightarrow> ErrorInfo list \<Rightarrow> Status" where
  "unavailableError errorMessage ds = Status_new UNAVAILABLE errorMessage ds"

definition rolloutUnavailableError :: "string \<Rightarrow> (string \<times> json) list option \<Rightarrow> Status" where
  "rolloutUnavailableError errorMessage extraInfo =
     unavailableError errorMessage (buildDetailsWithExtraInfo extraInfo)"

section \<open>exceptions.ts: error classes\<close>

text \<open>
  The sixteen exception classes of exceptions.ts and their base class. Each subclass
  constructor takes only a message and passes its own status code to the base constructor.
\<close>

datatype ep_class =
    EvalProtocolError
  | CancelledError
  | UnknownError
  | InvalidArgumentError
  | DeadlineExceededError
  | NotFoundError
  | AlreadyExistsError
  | PermissionDeniedError
  | ResourceExhaustedError
  | FailedPreconditionError
  | AbortedError
  | OutOfRangeError
  | UnimplementedError
  | InternalError
  | UnavailableError
  | DataLossError
  | UnauthenticatedError

text \<open>
  The classes an \<open>instanceof\<close> test of this repository can observe: the built-in
  \<open>Error\<close> and \<open>TypeError\<close>, the error classes exported by the OpenAI SDK, the
  classes above, and any other class (\<open>OtherClass\<close>, which derives from none of them).
\<close>

datatype js_class =
    Error
  | TypeError
  | OpenAI_OpenAIError
  | OpenAI_APIError
  | OpenAI_APIUserAbortError
  | OpenAI_APIConnectionError
  | OpenAI_APIConnectionTimeoutError
  | OpenAI_BadRequestError
  | OpenAI_AuthenticationError
  | OpenAI_PermissionDeniedError
  | OpenAI_NotFoundError
  | OpenAI_ConflictError
  | OpenAI_UnprocessableEntityError
  | OpenAI_RateLimitError
  | OpenAI_InternalServerError
  | EvalProtocol ep_class
  | OtherClass string

text \<open>
  The prototype chain of each class, the class itself first. The OpenAI part is the SDK's
  class hierarchy (every status error extends \<open>APIError\<close> directly, the timeout error
  extends the connection error); the rest is the \<open>extends\<close> clauses of exceptions.ts.
\<close>

fun proto_chain :: "js_class \<Rightarrow> js_class list" where
  "proto_chain Error = [Error]"
| "proto_chain TypeError = [TypeError, Error]"
| "proto_chain OpenAI_OpenAIError = [OpenAI_OpenAIError, Error]"
| "proto_chain OpenAI_APIError = [OpenAI_APIError, OpenAI_OpenAIError, Error]"
| "proto_chain OpenAI_APIConnectionTimeoutError =
     [OpenAI_APIConnectionTimeoutError, OpenAI_APIConnectionError, OpenAI_APIError,
      OpenAI_OpenAIError, Error]"
| "proto_chain (EvalProtocol EvalProtocolError) = [EvalProtocol EvalProtocolError, Error]"
| "proto_chain (EvalProtocol c) = [EvalProtocol c, EvalProtocol EvalProtocolError, Error]"
| "proto_chain (OtherClass n) = [OtherClass n]"
| "proto_chain c = [c, OpenAI_APIError, OpenAI_OpenAIError, Error]"

text \<open>
  A thrown value is \<open>null\<close>, \<open>undefined\<close>, another primitive (given by the string
  \<open>String(v)\<close> yields), or an object. Of an object the code reads its class and the
  properties \<open>name\<close>, \<open>message\<close>, \<open>code\<close> and \<open>statusCode\<close>; \<open>None\<close> is a
  property that is absent or not a string.
\<close>

record error_obj =
  e_cls :: js_class
  e_name :: "string option"
  e_message :: "string option"
  e_code :: "string option"
  e_statusCode :: "StatusCode option"

datatype js_value =
    JsNull
  | JsUndefined
  | JsPrimitive string
  | JsObject error_obj

text \<open>The TypeError raised by a property read on \<open>null\<close> or \<open>undefined\<close>.\<close>

definition TypeError_new :: "string \<Rightarrow> js_value" where
  "TypeError_new msg =
     JsObject \<lparr>e_cls = TypeError, e_name = Some ''TypeError'', e_message = Some msg,
               e_code = None, e_statusCode = None\<rparr>"

definition Error_new :: "string \<Rightarrow> js_value" where
  "Error_new msg =
     JsObject \<lparr>e_cls = Error, e_name = Some ''Error'', e_message = Some msg,
               e_code = None, e_statusCode = None\<rparr>"

fun instanceof :: "js_value \<Rightarrow> js_class \<Rightarrow> bool" where
  "instanceof (JsObject obj) c = (c \<in> set (proto_chain (e_cls obj)))"
| "instanceof v c = False"

text \<open>\<open>error.message\<close> and \<open>error.code\<close>: a property read, which throws on a nullish value.\<close>

fun get_message :: "js_value \<Rightarrow> js_value + string option" where
  "get_message JsNull = Inl (TypeError_new ''Cannot read properties of null'')"
| "get_message JsUndefined = Inl (TypeError_new ''Cannot read properties of undefined'')"
| "get_message (JsPrimitive s) = Inr None"
| "get_message (JsObject obj) = Inr (e_message obj)"

fun get_code :: "js_value \<Rightarrow> js_value + string option" where
  "get_code JsNull = Inl (TypeError_new ''Cannot read properties of null'')"
| "get_code JsUndefined = Inl (TypeError_new ''Cannot read properties of undefined'')"
| "get_code (JsPrimitive s) = Inr None"
| "get_code (JsObject obj) = Inr (e_code obj)"

text \<open>
  \<open>String(error)\<close>. For an Error object this is \<open>Error.prototype.toString\<close>: the name
  (default \<open>Error\<close>) and the message (default empty), joined by a colon when both are
  nonempty.
\<close>

definition Error_toString :: "error_obj \<Rightarrow> string" where
  "Error_toString obj =
     (let name = (case e_name obj of None \<Rightarrow> ''Error'' | Some n \<Rightarrow> n);
          msg = (case e_message obj of None \<Rightarrow> [] | Some m \<Rightarrow> m)
      in if name = [] then msg else if msg = [] then name else name @ '': '' @ msg)"

fun js_String :: "js_value \<Rightarrow> string" where
  "js_String JsNull = ''null''"
| "js_String JsUndefined = ''undefined''"
| "js_String (JsPrimitive s) = s"
| "js_String (JsObject obj) =
     (if Error \<in> set (proto_chain (e_cls obj)) then Error_toString obj
      else ''[object Object]'')"

subsection \<open>EvalProtocolError and its subclasses\<close>

fun class_name :: "ep_class \<Rightarrow> string" where
  "class_name EvalProtocolError = ''EvalProtocolError''"
| "class_name CancelledError = ''CancelledError''"
| "class_name UnknownError = ''UnknownError''"
| "class_name InvalidArgumentError = ''InvalidArgumentError''"
| "class_name DeadlineExceededError = ''DeadlineExceededError''"
| "class_name NotFoundError = ''NotFoundError''"
| "class_name AlreadyExistsError = ''AlreadyExistsError''"
| "class_name PermissionDeniedError = ''PermissionDeniedError''"
| "class_name ResourceExhaustedError = ''ResourceExhaustedError''"
| "class_name FailedPreconditionError = ''FailedPreconditionError''"
| "class_name AbortedError = ''AbortedError''"
| "class_name OutOfRangeError = ''OutOfRangeError''"
| "class_name UnimplementedError = ''UnimplementedError''"
| "class_name InternalError = ''InternalError''"
| "class_name UnavailableError = ''UnavailableError''"
| "class_name DataLossError = ''DataLossError''"
| "class_name UnauthenticatedError = ''UnauthenticatedError''"

text \<open>
  The base constructor: \<open>super(message)\<close>, then \<open>name\<close> is the name of the class being
  constructed and \<open>statusCode\<close> the given code.
\<close>

definition EvalProtocolError_new :: "ep_class \<Rightarrow> string \<Rightarrow> StatusCode \<Rightarrow> error_obj" where
  "EvalProtocolError_new c message statusCode =
     \<lparr>e_cls = EvalProtocol c, e_name = Some (class_name c), e_message = Some message,
      e_code = None, e_statusCode = Some statusCode\<rparr>"

text \<open>
  \<open>new cls(message, code)\<close>. A subclass constructor declares the single parameter
  \<open>message\<close>, so the second argument is dropped and the class's own code is used.
\<close>

fun new_exception :: "ep_class \<Rightarrow> string \<Rightarrow> StatusCode \<Rightarrow> error_obj" where
  "new_exception EvalProtocolError message c = EvalProtocolError_new EvalProtocolError message c"
| "new_exception CancelledError message c = EvalProtocolError_new CancelledError message CANCELLED"
| "new_exception UnknownError message c = EvalProtocolError_new UnknownError message UNKNOWN"
| "new_exception InvalidArgumentError message c =
     EvalProtocolError_new InvalidArgumentError message INVALID_ARGUMENT"
| "new_exception DeadlineExceededError message c =
     EvalProtocolError_new DeadlineExceededError message DEADLINE_EXCEEDED"
| "new_exception NotFoundError message c = EvalProtocolError_new NotFoundError message NOT_FOUND"
| "new_exception AlreadyExistsError message c =
     EvalProtocolError_new AlreadyExistsError message ALREADY_EXISTS"
| "new_exception PermissionDeniedError message c =
     EvalProtocolError_new PermissionDeniedError message PERMISSION_DENIED"
| "new_exception ResourceExhaustedError message c =
     EvalProtocolError_new ResourceExhaustedError message RESOURCE_EXHAUSTED"
| "new_exception FailedPreconditionError message c =
     EvalProtocolError_new FailedPreconditionError message FAILED_PRECONDITION"
| "new_exception AbortedError message c = EvalProtocolError_new AbortedError message ABORTED"
| "new_exception OutOfRangeError message c =
     EvalProtocolError_new OutOfRangeError message OUT_OF_RANGE"
| "new_exception UnimplementedError message c =
     EvalProtocolError_new UnimplementedError message UNIMPLEMENTED"
| "new_exception InternalError message c = EvalProtocolError_new InternalError message INTERNAL"
| "new_exception UnavailableError message c =
     EvalProtocolError_new UnavailableError message UNAVAILABLE"
| "new_exception DataLossError message c = EvalProtocolError_new DataLossError message DATA_LOSS"
| "new_exception UnauthenticatedError message c =
     EvalProtocolError_new UnauthenticatedError message UNAUTHENTICATED"

text \<open>The table \<open>STATUS_CODE_TO_EXCEPTION\<close>; \<open>None\<close> is the entry \<open>null\<close>.\<close>

definition STATUS_CODE_TO_EXCEPTION :: "(StatusCode \<times> ep_class option) list" where
  "STATUS_CODE_TO_EXCEPTION =
     [(OK, None),
      (CANCELLED, Some CancelledError),
      (UNKNOWN, Some UnknownError),
      (INVALID_ARGUMENT, Some InvalidArgumentError),
      (DEADLINE_EXCEEDED, Some DeadlineExceededError),
      (NOT_FOUND, Some NotFoundError),
      (ALREADY_EXISTS, Some AlreadyExistsError),
      (PERMISSION_DENIED, Some PermissionDeniedError),
      (RESOURCE_EXHAUSTED, Some ResourceExhaustedError),
      (FAILED_PRECONDITION, Some FailedPreconditionError),
      (ABORTED, Some AbortedError),
      (OUT_OF_RANGE, Some OutOfRangeError),
      (UNIMPLEMENTED, Some UnimplementedError),
      (INTERNAL, Some InternalError),
      (UNAVAILABLE, Some UnavailableError),
      (DATA_LOSS, Some DataLossError),
      (UNAUTHENTICATED, Some UnauthenticatedError),
      (FINISHED, None),
      (RUNNING, None),
      (SCORE_INVALID, None)]"

text \<open>
  \<open>exceptionForStatusCode\<close>: \<open>Map.get\<close> yields \<open>undefined\<close> for a missing key and
  \<open>null\<close> for a null entry; both are falsy and give \<open>null\<close> (\<open>None\<close>).
\<close>

definition exceptionForStatusCode :: "StatusCode \<Rightarrow> string \<Rightarrow> error_obj option" where
  "exceptionForStatusCode c message =
     (case map_of STATUS_CODE_TO_EXCEPTION c of
        None \<Rightarrow> None
      | Some None \<Rightarrow> None
      | Some (Some exceptionClass) \<Rightarrow> Some (new_exception exceptionClass message c))"

subsection \<open>mapOpenAIErrorToStatus and isRetryableError\<close>

text \<open>
  \<open>error.message || String(error)\<close>, once \<open>error.message\<close> has been read: the message
  when it is a nonempty string, else the string conversion of the value.
\<close>

definition errorMessage_of :: "js_value \<Rightarrow> string option \<Rightarrow> string" where
  "errorMessage_of error m =
     (case m of
        Some s \<Rightarrow> if s \<noteq> [] then s else js_String error
      | None \<Rightarrow> js_String error)"

definition mapOpenAIErrorToStatus :: "js_value \<Rightarrow> js_value + Status" where
  "mapOpenAIErrorToStatus error =
     (case get_message error of
        Inl thrown \<Rightarrow> Inl thrown
      | Inr m \<Rightarrow>
          (let errorMessage = errorMessage_of error m in
           if instanceof error OpenAI_AuthenticationError then
             Inr (rolloutPermissionDeniedError errorMessage None)
           else if instanceof error OpenAI_PermissionDeniedError then
             Inr (rolloutPermissionDeniedError errorMessage None)
           else if instanceof error OpenAI_NotFoundError then
             Inr (rolloutNotFoundError errorMessage None)
           else if instanceof error OpenAI_RateLimitError then
             Inr (rolloutResourceExhaustedError errorMessage None)
           else if instanceof error OpenAI_BadRequestError then
             Inr (rolloutInvalidArgumentError errorMessage None)
           else if instanceof error OpenAI_InternalServerError then
             Inr (rolloutInternalError errorMessage None)
           else if instanceof error OpenAI_UnprocessableEntityError then
             Inr (rolloutInvalidArgumentError errorMessage None)
           else if instanceof error OpenAI_APIConnectionTimeoutError then
             Inr (rolloutDeadlineExceededError errorMessage None)
           else if instanceof error OpenAI_ConflictError then
             Inr (rolloutAlreadyExistsError errorMessage None)
           else
             (case get_code error of
                Inl thrown \<Rightarrow> Inl thrown
              | Inr c \<Rightarrow>
                  if c = Some ''ECONNRESET'' \<or> c = Some ''ENOTFOUND'' \<or> c = Some ''ETIMEDOUT''
                  then Inr (rolloutUnavailableError errorMessage None)
                  else Inr (rolloutInternalError errorMessage None))))"






section \<open>environment.ts: API key resolution\<close>

text \<open>
  A string is the list of its code units; the model covers code units below 256. Of these,
  \<open>String.prototype.trim\<close> removes tab, line feed, vertical tab, form feed, carriage
  return, space and no-break space from both ends.
\<close>

definition js_whitespace :: "char \<Rightarrow> bool" where
  "js_whitespace c \<longleftrightarrow>
     c \<in> {CHR 0x09, CHR 0x0A, CHR 0x0B, CHR 0x0C, CHR 0x0D, CHR 0x20, CHR 0xA0}"

definition trim :: "string \<Rightarrow> string" where
  "trim s = rev (dropWhile js_whitespace (rev (dropWhile js_whitespace s)))"

text \<open>Truthiness of a value that is a string, \<open>null\<close> or \<open>undefined\<close>.\<close>

fun truthy_str :: "string option \<Rightarrow> bool" where
  "truthy_str None = False"
| "truthy_str (Some s) = (s \<noteq> [])"

text \<open>\<open>process.env\<close> maps a variable name to its value when the variable is set.\<close>

type_synonym process_env = "string \<rightharpoonup> string"

definition getEnv :: "process_env \<Rightarrow> string \<Rightarrow> string option \<Rightarrow> string option" where
  "getEnv env name defaultValue =
     (let v = env name in
      if truthy_str v \<and> truthy_str (map_option trim v) then map_option trim v
      else defaultValue)"

definition resolveApiKey :: "process_env \<Rightarrow> string option \<Rightarrow> string option" where
  "resolveApiKey env requestApiKey =
     (if truthy_str requestApiKey \<and> truthy_str (map_option trim requestApiKey)
      then map_option trim requestApiKey
      else
        (let envApiKey = getEnv env ''FIREWORKS_API_KEY'' None in
         if truthy_str envApiKey then envApiKey else None))"

section \<open>HTTP requests and promises\<close>

text \<open>
  A promise is fulfilled, rejected with a thrown value, or never settles. \<open>fetch\<close> is
  the network: it answers a request with a response status, rejects with an Error object,
  or never settles (the code passes no timeout signal).
\<close>

datatype 'a promise = Fulfilled 'a | Rejected js_value | Unsettled

datatype fetch_outcome = Responded nat | FetchRejected error_obj | FetchUnsettled

record 'b http_request =
  hq_url :: string
  hq_method :: string
  hq_headers :: "(string \<times> string) list"
  hq_body :: 'b

text \<open>
  Platform functions the code calls and the model takes as given: the clock
  (\<open>new Date().toISOString()\<close>) and \<open>String.prototype.toUpperCase\<close>.
\<close>

record js_runtime =
  rt_now :: string
  rt_toUpperCase :: "string \<Rightarrow> string"

section \<open>fireworks-transport.ts: FireworksTransport\<close>

text \<open>
  The fields of a log record the transport reads. \<open>level\<close> and the \<open>Symbol.for('level')\<close>
  property are strings, as winston's \<open>TransformableInfo\<close> declares; the other fields are
  tested with \<open>typeof\<close> at run time and hold any JSON value, or are absent.
\<close>

record FireworksLogInfo =
  i_message :: "json option"
  i_level :: "string option"
  i_LEVEL :: "string option"
  i_rollout_id :: "json option"
  i_experiment_id :: "json option"
  i_run_id :: "json option"
  i_rollout_ids :: "json option"
  i_status :: "json option"
  i_program :: "json option"
  i_logger_name :: "string option"

record StatusInfo =
  si_code :: "rat option"
  si_message :: "string option"
  si_details :: "json list"

record payload_extras =
  x_logger_name :: string
  x_level :: string
  x_timestamp :: string

record FireworksPayload =
  p_program :: string
  p_status :: "StatusInfo option"
  p_message :: string
  p_tags :: "string list"
  p_extras :: payload_extras

record transport_opts =
  o_gatewayBaseUrl :: "string option"
  o_rolloutIdEnv :: "string option"
  o_waitUntil :: bool

record FireworksTransport =
  gatewayBaseUrl :: string
  rolloutIdEnv :: string
  apiKey :: "string option"
  waitUntil :: bool

text \<open>\<open>a || b\<close> on strings that may be undefined.\<close>

definition or_str :: "string option \<Rightarrow> string option \<Rightarrow> string option" where
  "or_str a b = (if truthy_str a then a else b)"

definition or_default :: "string option \<Rightarrow> string \<Rightarrow> string" where
  "or_default a d = (case a of Some s \<Rightarrow> if s \<noteq> [] then s else d | None \<Rightarrow> d)"

definition FireworksTransport_new :: "transport_opts \<Rightarrow> process_env \<Rightarrow> FireworksTransport" where
  "FireworksTransport_new opts env =
     \<lparr>gatewayBaseUrl =
        or_default (or_str (o_gatewayBaseUrl opts) (env ''FW_TRACING_GATEWAY_BASE_URL''))
          ''https://tracing.fireworks.ai'',
      rolloutIdEnv = or_default (o_rolloutIdEnv opts) ''EP_ROLLOUT_ID'',
      apiKey = env ''FIREWORKS_API_KEY'',
      waitUntil = o_waitUntil opts\<rparr>"

text \<open>A property that is a nonempty string: \<open>v && typeof v === 'string'\<close>.\<close>

fun nonempty_string :: "json option \<Rightarrow> string option" where
  "nonempty_string (Some (JStr s)) = (if s \<noteq> [] then Some s else None)"
| "nonempty_string v = None"

definition getRolloutId :: "FireworksTransport \<Rightarrow> process_env \<Rightarrow> FireworksLogInfo \<Rightarrow> string option" where
  "getRolloutId t env info =
     (case nonempty_string (i_rollout_id info) of
        Some rid \<Rightarrow> Some rid
      | None \<Rightarrow> or_str (env (rolloutIdEnv t)) None)"

text \<open>
  \<open>getStatusInfo\<close>: a truthy status that is an object with a \<open>code\<close> and a \<open>message\<close>
  property is copied, each of its three entries kept only when it has the expected type.
\<close>

fun has_key :: "json \<Rightarrow> string \<Rightarrow> bool" where
  "has_key (JObj kvs) k = (map_of kvs k \<noteq> None)"
| "has_key v k = False"

fun json_field :: "json \<Rightarrow> string \<Rightarrow> json option" where
  "json_field (JObj kvs) k = map_of kvs k"
| "json_field v k = None"

definition getStatusInfo :: "FireworksLogInfo \<Rightarrow> StatusInfo option" where
  "getStatusInfo info =
     (case i_status info of
        None \<Rightarrow> None
      | Some status \<Rightarrow>
          if \<not> truthy status then None
          else if has_key status ''code'' \<and> has_key status ''message'' then
            Some \<lparr>si_code = (case json_field status ''code'' of Some (JNum n) \<Rightarrow> Some n | _ \<Rightarrow> None),
                  si_message =
                    (case json_field status ''message'' of Some (JStr s) \<Rightarrow> Some s | _ \<Rightarrow> None),
                  si_details =
                    (case json_field status ''details'' of Some (JArr ds) \<Rightarrow> ds | _ \<Rightarrow> [])\<rparr>
          else None)"

text \<open>The tags pushed for the strings of \<open>info.rollout_ids\<close>, in order.\<close>

fun rollout_ids_tags :: "json list \<Rightarrow> string list" where
  "rollout_ids_tags [] = []"
| "rollout_ids_tags (JStr rid # rest) = (''rollout_id:'' @ rid) # rollout_ids_tags rest"
| "rollout_ids_tags (v # rest) = rollout_ids_tags rest"

definition buildPayload ::
  "js_runtime \<Rightarrow> FireworksLogInfo \<Rightarrow> string \<Rightarrow> FireworksPayload" where
  "buildPayload rt info rolloutId =
     (let timestamp = rt_now rt;
          message = (case i_message info of Some (JStr s) \<Rightarrow> s | _ \<Rightarrow> []);
          level = or_default (or_str (i_LEVEL info) (i_level info)) ''info'';
          tags = [''rollout_id:'' @ rolloutId]
            @ (case nonempty_string (i_experiment_id info) of
                 Some e \<Rightarrow> [''experiment_id:'' @ e] | None \<Rightarrow> [])
            @ (case nonempty_string (i_run_id info) of
                 Some r \<Rightarrow> [''run_id:'' @ r] | None \<Rightarrow> [])
            @ (case i_rollout_ids info of
                 Some (JArr rids) \<Rightarrow> rollout_ids_tags rids | _ \<Rightarrow> []);
          program =
            or_default (case i_program info of Some (JStr s) \<Rightarrow> Some s | _ \<Rightarrow> None)
              ''eval_protocol''
      in \<lparr>p_program = program,
          p_status = getStatusInfo info,
          p_message = message,
          p_tags = tags,
          p_extras = \<lparr>x_logger_name = or_default (i_logger_name info) ''winston'',
                      x_level = rt_toUpperCase rt level,
                      x_timestamp = timestamp\<rparr>\<rparr>)"

text \<open>\<open>gatewayBaseUrl.replace(/\/$/, '')\<close>: one trailing slash is removed.\<close>

definition strip_trailing_slash :: "string \<Rightarrow> string" where
  "strip_trailing_slash s = (if s \<noteq> [] \<and> last s = CHR ''/'' then butlast s else s)"

definition transport_headers :: "FireworksTransport \<Rightarrow> (string \<times> string) list" where
  "transport_headers t =
     [(''Content-Type'', ''application/json''),
      (''User-Agent'', ''winston-fireworks-transport/1.0.0'')]
     @ (case apiKey t of
          Some k \<Rightarrow> if k \<noteq> [] then [(''Authorization'', ''Bearer '' @ k)] else []
        | None \<Rightarrow> [])"

text \<open>
  The result of an asynchronous call: the requests it issued, in order, and the state its
  promise reaches.
\<close>

type_synonym 'b async_result = "'b http_request list \<times> unit promise"

text \<open>
  The \<open>try\<close> block of \<open>sendToFireworks\<close>: the POST to \<open>/logs\<close> and, on a 404 response,
  the POST to \<open>/v1/logs\<close>. A rejected \<open>fetch\<close> leaves the block by the exception.
  (The \<open>EP_DEBUG\<close> console output is not modelled.)
\<close>

definition sendToFireworks_try ::
  "FireworksTransport \<Rightarrow> (FireworksPayload http_request \<Rightarrow> fetch_outcome) \<Rightarrow>
   FireworksPayload \<Rightarrow> string \<Rightarrow> FireworksPayload async_result" where
  "sendToFireworks_try t fetch payload baseUrl =
     (let headers = transport_headers t;
          request = \<lparr>hq_url = baseUrl @ ''/logs'', hq_method = ''POST'',
                     hq_headers = headers, hq_body = payload\<rparr>
      in case fetch request of
           FetchUnsettled \<Rightarrow> ([request], Unsettled)
         | FetchRejected e \<Rightarrow> ([request], Rejected (JsObject e))
         | Responded status \<Rightarrow>
             if status = 404 then
               (let retry = \<lparr>hq_url = baseUrl @ ''/v1/logs'', hq_method = ''POST'',
                              hq_headers = headers, hq_body = payload\<rparr>
                in case fetch retry of
                     FetchUnsettled \<Rightarrow> ([request, retry], Unsettled)
                   | FetchRejected e \<Rightarrow> ([request, retry], Rejected (JsObject e))
                   | Responded retryStatus \<Rightarrow> ([request, retry], Fulfilled ()))
             else ([request], Fulfilled ()))"

text \<open>\<open>try { ... } catch (error) { }\<close> with a handler that swallows the exception.\<close>

fun catch_silently :: "'b async_result \<Rightarrow> 'b async_result" where
  "catch_silently (requests, Rejected e) = (requests, Fulfilled ())"
| "catch_silently r = r"

definition sendToFireworks ::
  "FireworksTransport \<Rightarrow> js_runtime \<Rightarrow> process_env \<Rightarrow>
   (FireworksPayload http_request \<Rightarrow> fetch_outcome) \<Rightarrow> FireworksLogInfo \<Rightarrow>
   FireworksPayload async_result" where
  "sendToFireworks t rt env fetch info =
     (if gatewayBaseUrl t = [] then ([], Fulfilled ())
      else
        (case getRolloutId t env info of
           None \<Rightarrow> ([], Fulfilled ())
         | Some rolloutId \<Rightarrow>
             if rolloutId = [] then ([], Fulfilled ())
             else
               (let payload = buildPayload rt info rolloutId;
                    baseUrl = strip_trailing_slash (gatewayBaseUrl t)
                in catch_silently (sendToFireworks_try t fetch payload baseUrl))))"



section \<open>types.ts: the request schema\<close>

text \<open>
  The zod schemas, read as validators on JSON values. \<open>.optional().nullable()\<close> accepts an
  absent key and \<open>null\<close>; \<open>z.any()\<close> accepts everything; \<open>z.record\<close> accepts an
  object; \<open>z.object\<close> accepts an object whose listed keys validate and returns only those
  keys, in schema order; \<open>z.union\<close> returns the result of its first accepting member.
\<close>

fun opt_nullable :: "(json \<Rightarrow> bool) \<Rightarrow> json option \<Rightarrow> bool" where
  "opt_nullable p None = True"
| "opt_nullable p (Some JNull) = True"
| "opt_nullable p (Some v) = p v"

fun required :: "(json \<Rightarrow> bool) \<Rightarrow> json option \<Rightarrow> bool" where
  "required p None = False"
| "required p (Some v) = p v"

fun is_string :: "json \<Rightarrow> bool" where
  "is_string (JStr s) = True"
| "is_string v = False"

fun is_array :: "json \<Rightarrow> bool" where
  "is_array (JArr xs) = True"
| "is_array v = False"

fun is_record :: "json \<Rightarrow> bool" where
  "is_record (JObj kvs) = True"
| "is_record v = False"

fun is_number :: "json \<Rightarrow> bool" where
  "is_number (JNum n) = True"
| "is_number v = False"

definition pick_keys :: "string list \<Rightarrow> (string \<times> json) list \<Rightarrow> (string \<times> json) list" where
  "pick_keys ks kvs =
     concat (map (\<lambda>k. case map_of kvs k of None \<Rightarrow> [] | Some v \<Rightarrow> [(k, v)]) ks)"

type_synonym Message = "(string \<times> json) list"

text \<open>The first member of \<open>messageSchema\<close>: a system, user or assistant message.\<close>

definition general_message_keys :: "string list" where
  "general_message_keys =
     [''role'', ''content'', ''name'', ''tool_call_id'', ''tool_calls'', ''function_call'',
      ''reasoning_content'', ''control_plane_step'', ''weight'']"

definition general_message_ok :: "(string \<times> json) list \<Rightarrow> bool" where
  "general_message_ok kvs \<longleftrightarrow>
     required (\<lambda>v. v \<in> {JStr ''system'', JStr ''user'', JStr ''assistant''}) (map_of kvs ''role'') \<and>
     opt_nullable (\<lambda>v. is_string v \<or> is_array v) (map_of kvs ''content'') \<and>
     opt_nullable is_string (map_of kvs ''name'') \<and>
     opt_nullable is_string (map_of kvs ''tool_call_id'') \<and>
     opt_nullable is_array (map_of kvs ''tool_calls'') \<and>
     opt_nullable is_string (map_of kvs ''reasoning_content'') \<and>
     opt_nullable is_record (map_of kvs ''control_plane_step'') \<and>
     opt_nullable is_number (map_of kvs ''weight'')"

text \<open>The second member: a tool message.\<close>

definition tool_message_keys :: "string list" where
  "tool_message_keys = [''role'', ''content'', ''tool_call_id'', ''name'']"

definition tool_message_ok :: "(string \<times> json) list \<Rightarrow> bool" where
  "tool_message_ok kvs \<longleftrightarrow>
     required (\<lambda>v. v = JStr ''tool'') (map_of kvs ''role'') \<and>
     required is_string (map_of kvs ''content'') \<and>
     required is_string (map_of kvs ''tool_call_id'') \<and>
     opt_nullable is_string (map_of kvs ''name'')"

fun messageSchema :: "json \<Rightarrow> Message option" where
  "messageSchema (JObj kvs) =
     (if general_message_ok kvs then Some (pick_keys general_message_keys kvs)
      else if tool_message_ok kvs then Some (pick_keys tool_message_keys kvs)
      else None)"
| "messageSchema v = None"

record RolloutMetadata =
  invocation_id :: string
  experiment_id :: string
  rollout_id :: string
  run_id :: string
  row_id :: string

record InitRequest =
  completion_params :: "(string \<times> json) list"
  messages :: "Message list option"
  tools :: "json list option"
  metadata :: RolloutMetadata
  model_base_url :: "string option"
  api_key :: "string option"

text \<open>A validation issue: the path of the offending value and the issue code.\<close>

datatype path_elem = Key string | Index nat

type_synonym issue = "path_elem list \<times> string"

definition rolloutMetadata_keys :: "string list" where
  "rolloutMetadata_keys = [''invocation_id'', ''experiment_id'', ''rollout_id'', ''run_id'', ''row_id'']"

fun rolloutMetadata_issues :: "json option \<Rightarrow> issue list" where
  "rolloutMetadata_issues (Some (JObj kvs)) =
     concat (map (\<lambda>k. if required is_string (map_of kvs k) then []
                       else [([Key ''metadata'', Key k], ''invalid_type'')])
               rolloutMetadata_keys)"
| "rolloutMetadata_issues v = [([Key ''metadata''], ''invalid_type'')]"

fun messages_issues :: "json option \<Rightarrow> issue list" where
  "messages_issues None = []"
| "messages_issues (Some JNull) = []"
| "messages_issues (Some (JArr ms)) =
     concat (map (\<lambda>(i, m). if messageSchema m = None
                            then [([Key ''messages'', Index i], ''invalid_union'')] else [])
               (enumerate 0 ms))"
| "messages_issues (Some v) = [([Key ''messages''], ''invalid_type'')]"

definition initRequest_issues :: "(string \<times> json) list \<Rightarrow> issue list" where
  "initRequest_issues kvs =
     (if required is_record (map_of kvs ''completion_params'') then []
      else [([Key ''completion_params''], ''invalid_type'')])
     @ messages_issues (map_of kvs ''messages'')
     @ (if opt_nullable is_array (map_of kvs ''tools'') then []
        else [([Key ''tools''], ''invalid_type'')])
     @ rolloutMetadata_issues (map_of kvs ''metadata'')
     @ (if opt_nullable is_string (map_of kvs ''model_base_url'') then []
        else [([Key ''model_base_url''], ''invalid_type'')])
     @ (if opt_nullable is_string (map_of kvs ''api_key'') then []
        else [([Key ''api_key''], ''invalid_type'')])"

text \<open>The parsed data of a body that validates.\<close>

fun string_of :: "json option \<Rightarrow> string" where
  "string_of (Some (JStr s)) = s"
| "string_of v = []"

fun string_option_of :: "json option \<Rightarrow> string option" where
  "string_option_of (Some (JStr s)) = Some s"
| "string_option_of v = None"

definition initRequest_data :: "(string \<times> json) list \<Rightarrow> InitRequest" where
  "initRequest_data kvs =
     \<lparr>completion_params =
        (case map_of kvs ''completion_params'' of Some (JObj cp) \<Rightarrow> cp | _ \<Rightarrow> []),
      messages =
        (case map_of kvs ''messages'' of
           Some (JArr ms) \<Rightarrow> Some (concat (map (\<lambda>m. case messageSchema m of
                                                        None \<Rightarrow> [] | Some msg \<Rightarrow> [msg]) ms))
         | _ \<Rightarrow> None),
      tools = (case map_of kvs ''tools'' of Some (JArr ts) \<Rightarrow> Some ts | _ \<Rightarrow> None),
      metadata =
        (let md = map_of kvs ''metadata'' in
         \<lparr>invocation_id = string_of (Option.bind md (\<lambda>m. json_field m ''invocation_id'')),
          experiment_id = string_of (Option.bind md (\<lambda>m. json_field m ''experiment_id'')),
          rollout_id = string_of (Option.bind md (\<lambda>m. json_field m ''rollout_id'')),
          run_id = string_of (Option.bind md (\<lambda>m. json_field m ''run_id'')),
          row_id = string_of (Option.bind md (\<lambda>m. json_field m ''row_id''))\<rparr>),
      model_base_url = string_option_of (map_of kvs ''model_base_url''),
      api_key = string_option_of (map_of kvs ''api_key'')\<rparr>"

text \<open>\<open>initRequestSchema.safeParse\<close>; \<open>None\<close> is a request without a body.\<close>

fun safeParse :: "json option \<Rightarrow> issue list + InitRequest" where
  "safeParse (Some (JObj kvs)) =
     (if initRequest_issues kvs = [] then Inr (initRequest_data kvs)
      else Inl (initRequest_issues kvs))"
| "safeParse v = Inl [([], ''invalid_type'')]"

text \<open>
  The schema in words: \<open>completion_params\<close> is an object; \<open>messages\<close> is absent, null
  or an array of valid messages; \<open>tools\<close> is absent, null or an array; \<open>metadata\<close> is an
  object whose five ids are strings; \<open>model_base_url\<close> and \<open>api_key\<close> are absent, null or
  strings. It is shown below to be what \<open>safeParse\<close> accepts.
\<close>

definition conforms :: "(string \<times> json) list \<Rightarrow> bool" where
  "conforms kvs \<longleftrightarrow>
     required is_record (map_of kvs ''completion_params'') \<and>
     opt_nullable (\<lambda>v. case v of JArr ms \<Rightarrow> list_all (\<lambda>m. messageSchema m \<noteq> None) ms | _ \<Rightarrow> False)
       (map_of kvs ''messages'') \<and>
     opt_nullable is_array (map_of kvs ''tools'') \<and>
     required (\<lambda>v. case v of
                      JObj md \<Rightarrow> list_all (\<lambda>k. required is_string (map_of md k))
                                   [''invocation_id'', ''experiment_id'', ''rollout_id'',
                                    ''run_id'', ''row_id'']
                    | _ \<Rightarrow> False)
       (map_of kvs ''metadata'') \<and>
     opt_nullable is_string (map_of kvs ''model_base_url'') \<and>
     opt_nullable is_string (map_of kvs ''api_key'')"

section \<open>api/init.ts: the request handler\<close>

subsection \<open>logToFireworks\<close>

record init_log_payload =
  lp_program :: string
  lp_message :: string
  lp_tags :: "string list"
  lp_extras :: payload_extras
  lp_status :: Status

text \<open>The payload and the request that \<open>logToFireworks\<close> builds.\<close>

definition log_request ::
  "js_runtime \<Rightarrow> process_env \<Rightarrow> string \<Rightarrow> string \<Rightarrow> Status \<Rightarrow> string \<Rightarrow>
   init_log_payload http_request" where
  "log_request rt env rolloutId message status key =
     (let payload =
            \<lparr>lp_program = ''eval_protocol'',
             lp_message = message,
             lp_tags = [''rollout_id:'' @ rolloutId],
             lp_extras = \<lparr>x_logger_name = ''__main__.'' @ rolloutId, x_level = ''INFO'',
                          x_timestamp = rt_now rt\<rparr>,
             lp_status = \<lparr>st_code = st_code status, st_message = st_message status,
                          st_details = st_details status\<rparr>\<rparr>;
          url = or_default (env ''FW_TRACING_GATEWAY_BASE_URL'') ''https://tracing.fireworks.ai''
      in \<lparr>hq_url = url @ ''/logs'', hq_method = ''POST'',
          hq_headers = [(''Content-Type'', ''application/json''),
                        (''Authorization'', ''Bearer '' @ key),
                        (''User-Agent'', ''typescript-fetch/1.0.0'')],
          hq_body = payload\<rparr>)"

text \<open>
  The \<open>try\<close> block of \<open>logToFireworks\<close>: one awaited POST. A response that is not
  \<open>ok\<close> only writes to the console, which is not modelled.
\<close>

definition logToFireworks_try ::
  "js_runtime \<Rightarrow> process_env \<Rightarrow> (init_log_payload http_request \<Rightarrow> fetch_outcome) \<Rightarrow>
   string \<Rightarrow> string \<Rightarrow> Status \<Rightarrow> string \<Rightarrow> init_log_payload async_result" where
  "logToFireworks_try rt env fetch rolloutId message status key =
     (let request = log_request rt env rolloutId message status key
      in case fetch request of
           FetchUnsettled \<Rightarrow> ([request], Unsettled)
         | FetchRejected e \<Rightarrow> ([request], Rejected (JsObject e))
         | Responded responseStatus \<Rightarrow> ([request], Fulfilled ()))"

text \<open>
  Its \<open>catch\<close> block prints \<open>error.message\<close>: the exception is swallowed once that
  property has been read.
\<close>

fun catch_printing_message :: "'b async_result \<Rightarrow> 'b async_result" where
  "catch_printing_message (requests, Rejected e) =
     (case get_message e of
        Inl thrown \<Rightarrow> (requests, Rejected thrown)
      | Inr m \<Rightarrow> (requests, Fulfilled ()))"
| "catch_printing_message r = r"

definition logToFireworks ::
  "js_runtime \<Rightarrow> process_env \<Rightarrow> (init_log_payload http_request \<Rightarrow> fetch_outcome) \<Rightarrow>
   string \<Rightarrow> string \<Rightarrow> Status \<Rightarrow> string \<Rightarrow> init_log_payload async_result" where
  "logToFireworks rt env fetch rolloutId message status key =
     catch_printing_message (logToFireworks_try rt env fetch rolloutId message status key)"

subsection \<open>Message sanitization and completion parameters\<close>

text \<open>
  The handler wrapped by \<open>withFireworksLogging\<close> contains the same sanitization code, word
  for word; the definitions below are its model as well.
\<close>

definition allowedMessageFields :: "string set" where
  "allowedMessageFields =
     {''role'', ''content'', ''name'', ''tool_call_id'', ''tool_calls'', ''function_call''}"

text \<open>
  The body of the \<open>map\<close> callback: the entries with an allowed key and a value that is
  neither \<open>undefined\<close> (absent here) nor \<open>null\<close> are copied; a falsy \<open>role\<close> throws.
\<close>

definition sanitizeMessage :: "Message \<Rightarrow> js_value + Message" where
  "sanitizeMessage message =
     (let sanitized = filter (\<lambda>(key, v). key \<in> allowedMessageFields \<and> v \<noteq> JNull) message
      in if \<not> truthy_opt (map_of sanitized ''role'')
         then Inl (Error_new ''Message role is required'')
         else Inr sanitized)"

text \<open>\<open>Array.prototype.map\<close> with a callback that may throw: the first exception ends it.\<close>

fun map_throwing :: "('a \<Rightarrow> js_value + 'b) \<Rightarrow> 'a list \<Rightarrow> js_value + 'b list" where
  "map_throwing f [] = Inr []"
| "map_throwing f (x # xs) =
     (case f x of
        Inl thrown \<Rightarrow> Inl thrown
      | Inr y \<Rightarrow> (case map_throwing f xs of Inl thrown \<Rightarrow> Inl thrown | Inr ys \<Rightarrow> Inr (y # ys)))"

text \<open>
  A property read \<open>v.k\<close> on a JSON value that may be \<open>undefined\<close>, for the keys
  \<open>function\<close>, \<open>name\<close>, \<open>description\<close> and \<open>parameters\<close>, which no primitive or
  array defines: it throws on \<open>undefined\<close> and \<open>null\<close>.
\<close>

fun get_prop :: "json option \<Rightarrow> string \<Rightarrow> js_value + json option" where
  "get_prop None k = Inl (TypeError_new ''Cannot read properties of undefined'')"
| "get_prop (Some JNull) k = Inl (TypeError_new ''Cannot read properties of null'')"
| "get_prop (Some (JObj kvs)) k = Inr (map_of kvs k)"
| "get_prop (Some v) k = Inr None"

record tool_function =
  tf_name :: "json option"
  tf_description :: "json option"
  tf_parameters :: "json option"

text \<open>The callback of \<open>initRequest.tools.map\<close>; the result's \<open>type\<close> is always \<open>function\<close>.\<close>

definition map_tool :: "json \<Rightarrow> js_value + tool_function" where
  "map_tool tool =
     (case get_prop (Some tool) ''function'' of
        Inl thrown \<Rightarrow> Inl thrown
      | Inr f \<Rightarrow>
          (case get_prop f ''name'' of
             Inl thrown \<Rightarrow> Inl thrown
           | Inr name \<Rightarrow>
               (let description = (case get_prop f ''description'' of Inl t \<Rightarrow> None | Inr d \<Rightarrow> d);
                    parameters = (case get_prop f ''parameters'' of Inl t \<Rightarrow> None | Inr p \<Rightarrow> p)
                in Inr \<lparr>tf_name = name,
                        tf_description = (if truthy_opt description then description else None),
                        tf_parameters = (if truthy_opt parameters then parameters else None)\<rparr>)))"

text \<open>
  A call of \<open>chat.completions.create\<close>: the client's key and base URL and the completion
  parameters. \<open>cr_model\<close> holds the argument of \<open>String(...)\<close> and the numeric fields the
  arguments of \<open>Number(...)\<close>; \<open>None\<close> is a parameter that is not set.
\<close>

record completion_request =
  cr_apiKey :: string
  cr_baseURL :: "string option"
  cr_model :: "json option"
  cr_messages :: "Message list"
  cr_stream :: bool
  cr_temperature :: "json option"
  cr_max_tokens :: "json option"
  cr_top_p :: "json option"
  cr_frequency_penalty :: "json option"
  cr_presence_penalty :: "json option"
  cr_stop :: "json option"
  cr_tools :: "tool_function list option"

datatype create_outcome = Completion | CreateThrew js_value

subsection \<open>Responses\<close>

datatype response_body =
    EmptyBody
  | HealthBody
  | ErrorBody string
  | InvalidRequestBody string "issue list"
  | RolloutErrorBody string "string option"
  | CompletedBody string

text \<open>
  \<open>EmptyBody\<close> is \<open>{}\<close>; \<open>HealthBody\<close> the fixed health-check object; \<open>ErrorBody e\<close>
  is \<open>{error: e}\<close>; \<open>InvalidRequestBody p is\<close> is \<open>{error: p + error.message, details:
  error.issues}\<close> for the zod error with issues \<open>is\<close>; \<open>RolloutErrorBody e r\<close> is
  \<open>{error: e, rollout_id: r}\<close>; \<open>CompletedBody r\<close> is \<open>{status: 'completed',
  rollout_id: r, message: 'Rollout completed successfully'}\<close>.
\<close>

record http_response =
  res_headers :: "(string \<times> string) list"
  res_status :: nat
  res_body :: response_body

definition cors_headers :: "(string \<times> string) list" where
  "cors_headers =
     [(''Access-Control-Allow-Origin'', ''*''),
      (''Access-Control-Allow-Methods'', ''POST, GET, OPTIONS''),
      (''Access-Control-Allow-Headers'', ''Content-Type, Authorization'')]"

definition respond :: "nat \<Rightarrow> response_body \<Rightarrow> http_response" where
  "respond status body = \<lparr>res_headers = cors_headers, res_status = status, res_body = body\<rparr>"

record VercelRequest =
  req_method :: "string option"
  req_body :: "json option"

text \<open>
  What one invocation of the handler does: the state its response reaches, the calls it made
  to the chat-completion API and the POSTs it made to the tracing gateway, in order.
\<close>

record handler_result =
  hr_response :: "http_response promise"
  hr_completions :: "completion_request list"
  hr_log_posts :: "init_log_payload http_request list"

text \<open>A string option in a template literal: \<open>undefined\<close> prints as that word.\<close>

definition template :: "string option \<Rightarrow> string" where
  "template s = (case s of None \<Rightarrow> ''undefined'' | Some v \<Rightarrow> v)"

text \<open>The response chosen by the \<open>instanceof\<close> chain of the \<open>catch\<close> block.\<close>

definition error_response :: "js_value \<Rightarrow> string \<Rightarrow> string option \<Rightarrow> http_response" where
  "error_response error msg rolloutId =
     (if instanceof error OpenAI_AuthenticationError \<or> instanceof error OpenAI_PermissionDeniedError
      then respond 403 (RolloutErrorBody (''Authentication failed: '' @ msg) rolloutId)
      else if instanceof error OpenAI_NotFoundError
      then respond 404 (RolloutErrorBody (''Model not found: '' @ msg) rolloutId)
      else if instanceof error OpenAI_RateLimitError
      then respond 429 (RolloutErrorBody (''Rate limit exceeded: '' @ msg) rolloutId)
      else if instanceof error OpenAI_BadRequestError
      then respond 400 (RolloutErrorBody (''Bad request: '' @ msg) rolloutId)
      else if instanceof error OpenAI_APIConnectionTimeoutError
      then respond 408 (RolloutErrorBody (''Request timeout: '' @ msg) rolloutId)
      else if instanceof error OpenAI_InternalServerError
      then respond 502 (RolloutErrorBody (''Upstream server error: '' @ msg) rolloutId)
      else if instanceof error OpenAI_UnprocessableEntityError
      then respond 422 (RolloutErrorBody (''Invalid request data: '' @ msg) rolloutId)
      else respond 500 (RolloutErrorBody (''Internal error: '' @ msg) rolloutId))"

text \<open>
  The \<open>catch\<close> block, entered with the thrown value after the given completion calls and
  log POSTs. An exception raised inside it rejects the handler's promise.
\<close>

definition handler_catch ::
  "js_runtime \<Rightarrow> process_env \<Rightarrow> (init_log_payload http_request \<Rightarrow> fetch_outcome) \<Rightarrow>
   string option \<Rightarrow> string option \<Rightarrow> completion_request list \<Rightarrow>
   init_log_payload http_request list \<Rightarrow> js_value \<Rightarrow> handler_result" where
  "handler_catch rt env fetch rolloutId key completions posts error =
     (case mapOpenAIErrorToStatus error of
        Inl thrown \<Rightarrow>
          \<lparr>hr_response = Rejected thrown, hr_completions = completions, hr_log_posts = posts\<rparr>
      | Inr status \<Rightarrow>
          (let msg = template (case get_message error of Inl t \<Rightarrow> None | Inr m \<Rightarrow> m)
           in case (if truthy_str rolloutId \<and> truthy_str key
                    then logToFireworks rt env fetch (template rolloutId)
                           (''Rollout '' @ template rolloutId @ '' failed: '' @ msg) status
                           (template key)
                    else ([], Fulfilled ())) of
                (requests, Unsettled) \<Rightarrow>
                  \<lparr>hr_response = Unsettled, hr_completions = completions,
                   hr_log_posts = posts @ requests\<rparr>
              | (requests, Rejected thrown) \<Rightarrow>
                  \<lparr>hr_response = Rejected thrown, hr_completions = completions,
                   hr_log_posts = posts @ requests\<rparr>
              | (requests, Fulfilled u) \<Rightarrow>
                  \<lparr>hr_response = Fulfilled (error_response error msg rolloutId),
                   hr_completions = completions,
                   hr_log_posts = posts @ requests\<rparr>))"

text \<open>The completion parameters built from a validated request and its sanitized parts.\<close>

definition completionParams ::
  "InitRequest \<Rightarrow> string \<Rightarrow> Message list \<Rightarrow> tool_function list option \<Rightarrow> completion_request" where
  "completionParams initRequest key sanitizedMessages mappedTools =
     \<lparr>cr_apiKey = key,
      cr_baseURL = model_base_url initRequest,
      cr_model = map_of (completion_params initRequest) ''model'',
      cr_messages = sanitizedMessages,
      cr_stream = False,
      cr_temperature = map_of (completion_params initRequest) ''temperature'',
      cr_max_tokens = map_of (completion_params initRequest) ''max_tokens'',
      cr_top_p = map_of (completion_params initRequest) ''top_p'',
      cr_frequency_penalty = map_of (completion_params initRequest) ''frequency_penalty'',
      cr_presence_penalty = map_of (completion_params initRequest) ''presence_penalty'',
      cr_stop = map_of (completion_params initRequest) ''stop'',
      cr_tools = mappedTools\<rparr>"

text \<open>\<open>initRequest.tools.map(...)\<close>, done only for a nonempty tools array.\<close>

definition mapTools :: "json list option \<Rightarrow> js_value + tool_function list option" where
  "mapTools ts =
     (case ts of
        None \<Rightarrow> Inr None
      | Some l \<Rightarrow> if l = [] then Inr None else map_sum id Some (map_throwing map_tool l))"

text \<open>
  The end of the \<open>try\<close> block: the awaited completion call, then the awaited
  \<open>logToFireworks\<close>, then the 200 response. Both awaits are inside the \<open>try\<close>.
\<close>

definition handler_complete ::
  "js_runtime \<Rightarrow> process_env \<Rightarrow> (completion_request \<Rightarrow> create_outcome) \<Rightarrow>
   (init_log_payload http_request \<Rightarrow> fetch_outcome) \<Rightarrow> string \<Rightarrow> string \<Rightarrow>
   completion_request \<Rightarrow> handler_result" where
  "handler_complete rt env create fetch rolloutId key params =
     (case create params of
        CreateThrew thrown \<Rightarrow>
          handler_catch rt env fetch (Some rolloutId) (Some key) [params] [] thrown
      | Completion \<Rightarrow>
          (case logToFireworks rt env fetch rolloutId
                  (''Rollout '' @ rolloutId @ '' completed'') rolloutFinished key of
             (requests, Unsettled) \<Rightarrow>
               \<lparr>hr_response = Unsettled, hr_completions = [params], hr_log_posts = requests\<rparr>
           | (requests, Rejected thrown) \<Rightarrow>
               handler_catch rt env fetch (Some rolloutId) (Some key) [params] requests thrown
           | (requests, Fulfilled u) \<Rightarrow>
               \<lparr>hr_response = Fulfilled (respond 200 (CompletedBody rolloutId)),
                hr_completions = [params], hr_log_posts = requests\<rparr>))"

text \<open>
  The \<open>try\<close> block from the sanitization on, for a validated request with messages and a
  resolved key.
\<close>

definition handler_try ::
  "js_runtime \<Rightarrow> process_env \<Rightarrow> (completion_request \<Rightarrow> create_outcome) \<Rightarrow>
   (init_log_payload http_request \<Rightarrow> fetch_outcome) \<Rightarrow> InitRequest \<Rightarrow> string \<Rightarrow>
   handler_result" where
  "handler_try rt env create fetch initRequest key =
     (let rolloutId = rollout_id (metadata initRequest) in
      case map_throwing sanitizeMessage
             (case messages initRequest of None \<Rightarrow> [] | Some ms \<Rightarrow> ms) of
        Inl thrown \<Rightarrow> handler_catch rt env fetch (Some rolloutId) (Some key) [] [] thrown
      | Inr sanitizedMessages \<Rightarrow>
          (case mapTools (tools initRequest) of
             Inl thrown \<Rightarrow> handler_catch rt env fetch (Some rolloutId) (Some key) [] [] thrown
           | Inr mappedTools \<Rightarrow>
               handler_complete rt env create fetch rolloutId key
                 (completionParams initRequest key sanitizedMessages mappedTools)))"

definition responded :: "http_response \<Rightarrow> handler_result" where
  "responded r = \<lparr>hr_response = Fulfilled r, hr_completions = [], hr_log_posts = []\<rparr>"

definition handler ::
  "js_runtime \<Rightarrow> process_env \<Rightarrow> (completion_request \<Rightarrow> create_outcome) \<Rightarrow>
   (init_log_payload http_request \<Rightarrow> fetch_outcome) \<Rightarrow> VercelRequest \<Rightarrow> handler_result" where
  "handler rt env create fetch req =
     (if req_method req = Some ''OPTIONS'' then responded (respond 200 EmptyBody)
      else if req_method req = Some ''GET'' then responded (respond 200 HealthBody)
      else if req_method req \<noteq> Some ''POST'' then
        responded (respond 405
          (ErrorBody (''Method '' @ template (req_method req) @ '' not allowed'')))
      else
        (case safeParse (req_body req) of
           Inl issues \<Rightarrow>
             responded (respond 400 (InvalidRequestBody ''Invalid request format: '' issues))
         | Inr initRequest \<Rightarrow>
             (let rolloutId = rollout_id (metadata initRequest) in
              if messages initRequest = None \<or> messages initRequest = Some [] then
                responded (respond 400
                  (RolloutErrorBody ''messages is required and cannot be empty'' (Some rolloutId)))
              else
                (case resolveApiKey env (api_key initRequest) of
                   None \<Rightarrow>
                     responded (respond 401
                       (RolloutErrorBody
                          ''API key not provided in request or FIREWORKS_API_KEY environment variable''
                          (Some rolloutId)))
                 | Some key \<Rightarrow>
                     if key = [] then
                       responded (respond 401
                         (RolloutErrorBody
                            ''API key not provided in request or FIREWORKS_API_KEY environment variable''
                            (Some rolloutId)))
                     else handler_try rt env create fetch initRequest key))))"

section \<open>Sample inputs and named conditions\<close>

text \<open>A runtime with a fixed clock; its upper-casing is that of the level \<open>info\<close>.\<close>

definition sample_runtime :: js_runtime where
  "sample_runtime = \<lparr>rt_now = ''2025-01-01T00:00:00.000Z'', rt_toUpperCase = (\<lambda>s. ''INFO'')\<rparr>"

definition sample_transport :: FireworksTransport where
  "sample_transport =
     FireworksTransport_new \<lparr>o_gatewayBaseUrl = None, o_rolloutIdEnv = None, o_waitUntil = True\<rparr>
       Map.empty"

definition sample_info :: FireworksLogInfo where
  "sample_info =
     \<lparr>i_message = Some (JStr ''Rollout r1 completed''), i_level = Some ''info'',
      i_LEVEL = Some ''info'', i_rollout_id = Some (JStr ''r1''), i_experiment_id = None,
      i_run_id = None, i_rollout_ids = None, i_status = None, i_program = None,
      i_logger_name = Some ''init.r1''\<rparr>"

definition sample_info_no_rollout :: FireworksLogInfo where
  "sample_info_no_rollout = sample_info\<lparr>i_rollout_id := Some (JNum 7), i_message := None\<rparr>"

definition sample_metadata :: json where
  "sample_metadata =
     JObj [(''invocation_id'', JStr ''i1''), (''experiment_id'', JStr ''e1''),
           (''rollout_id'', JStr ''r1''), (''run_id'', JStr ''u1''), (''row_id'', JStr ''w1'')]"

definition sample_message :: json where
  "sample_message =
     JObj [(''role'', JStr ''user''), (''content'', JStr ''draw a circle''),
           (''name'', JNull), (''weight'', JNum 1), (''extra'', JBool True)]"

definition sample_body :: json where
  "sample_body =
     JObj [(''completion_params'', JObj [(''model'', JStr ''m1'')]),
           (''messages'', JArr [sample_message]),
           (''metadata'', sample_metadata),
           (''api_key'', JStr '' k1 '')]"

definition sample_request :: VercelRequest where
  "sample_request = \<lparr>req_method = Some ''POST'', req_body = Some sample_body\<rparr>"

text \<open>Environments of the code: a provider that answers, and four networks.\<close>

definition always_completes :: "completion_request \<Rightarrow> create_outcome" where
  "always_completes params = Completion"


definition always_ok :: "'b http_request \<Rightarrow> fetch_outcome" where
  "always_ok request = Responded 200"

definition always_500 :: "'b http_request \<Rightarrow> fetch_outcome" where
  "always_500 request = Responded 500"

definition not_found_then_ok :: "'b http_request \<Rightarrow> fetch_outcome" where
  "not_found_then_ok request =
     (if hq_url request = ''https://tracing.fireworks.ai/logs'' then Responded 404
      else Responded 200)"

text \<open>A network on which every request settles, with a response or a rejection.\<close>

definition settles :: "('b http_request \<Rightarrow> fetch_outcome) \<Rightarrow> bool" where
  "settles fetch \<longleftrightarrow> (\<forall>request. fetch request \<noteq> FetchUnsettled)"

definition blank_key_request :: VercelRequest where
  "blank_key_request =
     \<lparr>req_method = Some ''POST'',
      req_body = Some (JObj [(''completion_params'', JObj [(''model'', JStr ''m1'')]),
                             (''messages'', JArr [sample_message]),
                             (''metadata'', sample_metadata),
                             (''api_key'', JStr ''  '')])\<rparr>"

definition no_key_response :: http_response where
  "no_key_response =
     respond 401
       (RolloutErrorBody
          ''API key not provided in request or FIREWORKS_API_KEY environment variable''
          (Some ''r1''))"

definition invalid_request :: VercelRequest where
  "invalid_request =
     \<lparr>req_method = Some ''POST'', req_body = Some (JObj [(''messages'', JArr [JNum 3])])\<rparr>"

definition invalid_request_issues :: "issue list" where
  "invalid_request_issues =
     [([Key ''completion_params''], ''invalid_type''),
      ([Key ''messages'', Index 0], ''invalid_union''),
      ([Key ''metadata''], ''invalid_type'')]"

definition sample_completion :: completion_request where
  "sample_completion =
     \<lparr>cr_apiKey = ''k1'', cr_baseURL = None, cr_model = Some (JStr ''m1''),
      cr_messages = [[(''role'', JStr ''user''), (''content'', JStr ''draw a circle'')]],
      cr_stream = False, cr_temperature = None, cr_max_tokens = None, cr_top_p = None,
      cr_frequency_penalty = None, cr_presence_penalty = None, cr_stop = None,
      cr_tools = None\<rparr>"

section \<open>Verified properties\<close>

subsection \<open>Auxiliary facts\<close>





subsection \<open>Facts about trimming and key resolution\<close>

lemma dropWhile_all: "(\<forall>c \<in> set s. P c) \<Longrightarrow> dropWhile P s = []"
  by (induction s) auto

lemma dropWhile_Nil_all: "dropWhile P s = [] \<Longrightarrow> (\<forall>c \<in> set s. P c)"
  by (induction s) (auto split: if_splits)

lemma dropWhile_idem: "dropWhile P (dropWhile P s) = dropWhile P s"
  by (induction s) auto

lemma trim_empty_iff: "trim s = [] \<longleftrightarrow> (\<forall>c \<in> set s. js_whitespace c)"
proof
  assume "trim s = []"
  then have "dropWhile js_whitespace (rev (dropWhile js_whitespace s)) = []"
    unfolding trim_def by (simp only: rev_is_Nil_conv)
  then have "\<forall>c \<in> set (rev (dropWhile js_whitespace s)). js_whitespace c"
    by (rule dropWhile_Nil_all)
  then have "\<forall>c \<in> set (dropWhile js_whitespace s). js_whitespace c"
    by (simp only: set_rev)
  then have "dropWhile js_whitespace (dropWhile js_whitespace s) = []"
    by (rule dropWhile_all)
  then have "dropWhile js_whitespace s = []"
    by (simp only: dropWhile_idem)
  then show "\<forall>c \<in> set s. js_whitespace c"
    by (rule dropWhile_Nil_all)
next
  assume "\<forall>c \<in> set s. js_whitespace c"
  then have e: "dropWhile js_whitespace s = []"
    by (rule dropWhile_all)
  show "trim s = []"
    unfolding trim_def e by simp
qed

lemma trim_nonempty_imp: "trim k \<noteq> [] \<Longrightarrow> k \<noteq> []"
  unfolding trim_def by auto


lemma resolveApiKey_spec:
  "resolveApiKey env requestApiKey =
     (case requestApiKey of
        Some k \<Rightarrow> if trim k \<noteq> [] then Some (trim k)
                  else (case env ''FIREWORKS_API_KEY'' of
                          Some v \<Rightarrow> if trim v \<noteq> [] then Some (trim v) else None
                        | None \<Rightarrow> None)
      | None \<Rightarrow> (case env ''FIREWORKS_API_KEY'' of
                          Some v \<Rightarrow> if trim v \<noteq> [] then Some (trim v) else None
                        | None \<Rightarrow> None))"
proof -
  have n: "trim [] = []"
    by (simp add: trim_def)
  have t: "\<And>k. truthy_str (Some k) \<and> truthy_str (map_option trim (Some k)) \<longleftrightarrow> trim k \<noteq> []"
    using trim_nonempty_imp by auto
  show ?thesis
  proof (cases requestApiKey)
    case None
    show ?thesis
    proof (cases "env ''FIREWORKS_API_KEY''")
      case None
      with \<open>requestApiKey = None\<close> show ?thesis
        by (simp add: resolveApiKey_def getEnv_def)
    next
      case (Some v)
      with \<open>requestApiKey = None\<close> show ?thesis
        unfolding resolveApiKey_def getEnv_def Let_def Some t by simp
    qed
  next
    case (Some k)
    show ?thesis
    proof (cases "env ''FIREWORKS_API_KEY''")
      case None
      then show ?thesis
        unfolding resolveApiKey_def getEnv_def Let_def Some t by simp
    next
      case v: (Some v)
      show ?thesis
        unfolding resolveApiKey_def getEnv_def Let_def Some v t by simp
    qed
  qed
qed

subsection \<open>Facts about the transport\<close>

lemma nonempty_string_Some: "nonempty_string v = Some s \<Longrightarrow> s \<noteq> [] \<and> v = Some (JStr s)"
  by (cases v rule: nonempty_string.cases) (auto split: if_splits)

lemma getRolloutId_nonempty: "getRolloutId t env info = Some rid \<Longrightarrow> rid \<noteq> []"
  by (auto simp add: getRolloutId_def or_str_def dest: nonempty_string_Some
      split: option.splits if_splits)

lemma sendToFireworks_try_requests:
  "fst (sendToFireworks_try t fetch payload baseUrl) =
     (let request = \<lparr>hq_url = baseUrl @ ''/logs'', hq_method = ''POST'',
                      hq_headers = transport_headers t, hq_body = payload\<rparr>;
          retry = \<lparr>hq_url = baseUrl @ ''/v1/logs'', hq_method = ''POST'',
                    hq_headers = transport_headers t, hq_body = payload\<rparr>
      in if fetch request = Responded 404 then [request, retry] else [request])"
  by (simp add: sendToFireworks_try_def Let_def split: fetch_outcome.splits)

lemma fst_catch_silently: "fst (catch_silently r) = fst r"
  by (cases r rule: catch_silently.cases) simp_all

lemma snd_catch_silently: "snd (catch_silently r) \<noteq> Rejected e"
  by (cases r rule: catch_silently.cases) simp_all

subsection \<open>Facts about the schema\<close>

lemma concat_map_if_Nil:
  "concat (map (\<lambda>x. if P x then [] else [f x]) xs) = [] \<longleftrightarrow> list_all P xs"
  by (induction xs) auto

lemma enumerate_issues_Nil:
  "concat (map (\<lambda>(i, m). if messageSchema m = None then [g i] else []) (enumerate n ms)) = []
   \<longleftrightarrow> list_all (\<lambda>m. messageSchema m \<noteq> None) ms"
  by (induction ms arbitrary: n) auto

lemma messages_issues_Nil:
  "messages_issues v = [] \<longleftrightarrow>
     opt_nullable (\<lambda>v. case v of JArr ms \<Rightarrow> list_all (\<lambda>m. messageSchema m \<noteq> None) ms | _ \<Rightarrow> False) v"
proof (cases v)
  case None
  then show ?thesis by simp
next
  case (Some j)
  show ?thesis
  proof (cases j)
    case (JArr ms)
    show ?thesis
      unfolding Some JArr
      by (simp only: messages_issues.simps enumerate_issues_Nil opt_nullable.simps json.case)
  qed (simp_all add: Some)
qed

lemma rolloutMetadata_issues_Nil:
  "rolloutMetadata_issues v = [] \<longleftrightarrow>
     required (\<lambda>v. case v of
                      JObj md \<Rightarrow> list_all (\<lambda>k. required is_string (map_of md k))
                                   [''invocation_id'', ''experiment_id'', ''rollout_id'',
                                    ''run_id'', ''row_id'']
                    | _ \<Rightarrow> False) v"
  by (cases v rule: rolloutMetadata_issues.cases)
    (simp_all add: rolloutMetadata_keys_def)

lemma initRequest_issues_Nil: "initRequest_issues kvs = [] \<longleftrightarrow> conforms kvs"
  by (simp add: initRequest_issues_def conforms_def messages_issues_Nil
      rolloutMetadata_issues_Nil)

lemma safeParse_conforms:
  "(\<exists>initRequest. safeParse body = Inr initRequest) \<longleftrightarrow>
   (\<exists>kvs. body = Some (JObj kvs) \<and> conforms kvs)"
  by (cases body rule: safeParse.cases) (simp_all add: initRequest_issues_Nil)

subsection \<open>Facts about the handler\<close>

lemma logToFireworks_result:
  "logToFireworks rt env fetch rolloutId message status key =
     ([log_request rt env rolloutId message status key],
      if fetch (log_request rt env rolloutId message status key) = FetchUnsettled
      then Unsettled else Fulfilled ())"
  by (simp add: logToFireworks_def logToFireworks_try_def Let_def split: fetch_outcome.splits)

lemma mapOpenAIErrorToStatus_Inr_message:
  "mapOpenAIErrorToStatus error = Inr status \<Longrightarrow> \<exists>m. get_message error = Inr m"
  by (cases error) (simp_all add: mapOpenAIErrorToStatus_def)

lemma handler_catch_result:
  "handler_catch rt env fetch (Some rolloutId) (Some key) completions posts error =
     (case mapOpenAIErrorToStatus error of
        Inl thrown \<Rightarrow>
          \<lparr>hr_response = Rejected thrown, hr_completions = completions, hr_log_posts = posts\<rparr>
      | Inr status \<Rightarrow>
          (let msg = template (case get_message error of Inl t \<Rightarrow> None | Inr m \<Rightarrow> m);
               request = log_request rt env rolloutId
                           (''Rollout '' @ rolloutId @ '' failed: '' @ msg) status key
           in if rolloutId \<noteq> [] \<and> key \<noteq> [] then
                \<lparr>hr_response =
                   (if fetch request = FetchUnsettled then Unsettled
                    else Fulfilled (error_response error msg (Some rolloutId))),
                 hr_completions = completions,
                 hr_log_posts = posts @ [request]\<rparr>
              else
                \<lparr>hr_response = Fulfilled (error_response error msg (Some rolloutId)),
                 hr_completions = completions,
                 hr_log_posts = posts\<rparr>))"
  by (simp add: handler_catch_def logToFireworks_result Let_def template_def split: sum.splits)

lemma handler_complete_result:
  "handler_complete rt env create fetch rolloutId key params =
     (case create params of
        CreateThrew thrown \<Rightarrow>
          handler_catch rt env fetch (Some rolloutId) (Some key) [params] [] thrown
      | Completion \<Rightarrow>
          (let request = log_request rt env rolloutId
                           (''Rollout '' @ rolloutId @ '' completed'') rolloutFinished key
           in \<lparr>hr_response =
                  (if fetch request = FetchUnsettled then Unsettled
                   else Fulfilled (respond 200 (CompletedBody rolloutId))),
                hr_completions = [params],
                hr_log_posts = [request]\<rparr>))"
  by (simp add: handler_complete_def logToFireworks_result Let_def split: create_outcome.splits)


lemma settlesD: "settles fetch \<Longrightarrow> fetch request \<noteq> FetchUnsettled"
  by (simp add: settles_def)

lemma handler_catch_settled:
  assumes "settles fetch"
  shows "hr_response (handler_catch rt env fetch (Some rolloutId) (Some key) completions posts error) =
     (case mapOpenAIErrorToStatus error of
        Inl thrown \<Rightarrow> Rejected thrown
      | Inr status \<Rightarrow>
          Fulfilled (error_response error
            (template (case get_message error of Inl t \<Rightarrow> None | Inr m \<Rightarrow> m)) (Some rolloutId)))"
  using settlesD [OF assms]
  by (simp add: handler_catch_result Let_def split: sum.splits)

lemma handler_catch_completions:
  "hr_completions (handler_catch rt env fetch (Some rolloutId) (Some key) completions posts error) =
     completions"
  by (simp add: handler_catch_result Let_def split: sum.splits)

lemma handler_complete_settled:
  assumes "settles fetch"
  shows "hr_response (handler_complete rt env create fetch rolloutId key params) =
     (case create params of
        CreateThrew thrown \<Rightarrow>
          hr_response (handler_catch rt env always_ok (Some rolloutId) (Some key) [params] [] thrown)
      | Completion \<Rightarrow> Fulfilled (respond 200 (CompletedBody rolloutId)))"
proof -
  have ok: "settles (always_ok :: init_log_payload http_request \<Rightarrow> fetch_outcome)"
    by (simp add: settles_def always_ok_def)
  show ?thesis
    using settlesD [OF assms]
    by (simp add: handler_complete_result handler_catch_settled [OF assms]
        handler_catch_settled [OF ok] Let_def split: create_outcome.splits)
qed

lemma handler_try_settled:
  assumes "settles fetch"
  shows "hr_response (handler_try rt env create fetch initRequest key) =
         hr_response (handler_try rt env create always_ok initRequest key)"
proof -
  have ok: "settles (always_ok :: init_log_payload http_request \<Rightarrow> fetch_outcome)"
    by (simp add: settles_def always_ok_def)
  show ?thesis
    by (simp add: handler_try_def Let_def handler_catch_settled [OF assms]
        handler_catch_settled [OF ok] handler_complete_settled [OF assms]
        handler_complete_settled [OF ok] split: sum.splits)
qed

lemma handler_settled:
  assumes "settles fetch"
  shows "hr_response (handler rt env create fetch req) =
         hr_response (handler rt env create always_ok req)"
  by (simp add: handler_def Let_def handler_try_settled [OF assms] split: sum.splits option.splits)

lemma sendToFireworks_settled:
  assumes "settles fetch"
  shows "snd (sendToFireworks t rt env fetch info) = Fulfilled ()"
  using settlesD [OF assms]
  by (simp add: sendToFireworks_def sendToFireworks_try_def Let_def
      split: option.splits fetch_outcome.splits)

lemma hr_completions_responded: "hr_completions (responded r) = []"
  by (simp add: responded_def)

lemma hr_response_responded: "hr_response (responded r) = Fulfilled r"
  by (simp add: responded_def)

lemma handler_completions_parsed:
  assumes "hr_completions (handler rt env create fetch req) \<noteq> []"
  shows "req_method req = Some ''POST'' \<and> (\<exists>initRequest. safeParse (req_body req) = Inr initRequest)"
proof (rule ccontr)
  assume n: "\<not> (req_method req = Some ''POST'' \<and> (\<exists>initRequest. safeParse (req_body req) = Inr initRequest))"
  have "hr_completions (handler rt env create fetch req) = []"
  proof (cases "req_method req = Some ''POST''")
    case False
    then show ?thesis
      by (simp add: handler_def hr_completions_responded)
  next
    case True
    with n obtain issues where "safeParse (req_body req) = Inl issues"
      by (cases "safeParse (req_body req)") auto
    with True show ?thesis
      by (simp add: handler_def hr_completions_responded)
  qed
  with assms show False by simp
qed

lemma map_throwing_Inr:
  "map_throwing f xs = Inr ys \<longleftrightarrow> list_all2 (\<lambda>x y. f x = Inr y) xs ys"
proof (induction xs arbitrary: ys)
  case Nil
  then show ?case by auto
next
  case (Cons x xs)
  show ?case
  proof (cases "f x")
    case (Inl thrown)
    then show ?thesis by (auto simp add: list_all2_Cons1)
  next
    case (Inr y)
    show ?thesis
    proof (cases "map_throwing f xs")
      case (Inl thrown)
      with Inr Cons.IH show ?thesis
        by (auto simp add: list_all2_Cons1)
    next
      case r: (Inr zs)
      with Inr Cons.IH show ?thesis
        by (auto simp add: list_all2_Cons1)
    qed
  qed
qed

lemma sanitizeMessage_Inr:
  "sanitizeMessage m = Inr s \<Longrightarrow>
     s = filter (\<lambda>(key, v). key \<in> allowedMessageFields \<and> v \<noteq> JNull) m"
  by (simp add: sanitizeMessage_def Let_def split: if_splits)

lemma sanitizeMessages_Inr:
  "map_throwing sanitizeMessage ms = Inr ss \<Longrightarrow>
     ss = map (filter (\<lambda>(key, v). key \<in> allowedMessageFields \<and> v \<noteq> JNull)) ms"
proof -
  assume "map_throwing sanitizeMessage ms = Inr ss"
  then have "list_all2 (\<lambda>x y. sanitizeMessage x = Inr y) ms ss"
    by (simp only: map_throwing_Inr)
  then have "list_all2 (\<lambda>x y. y = filter (\<lambda>(key, v). key \<in> allowedMessageFields \<and> v \<noteq> JNull) x) ms ss"
    by (rule list_all2_mono) (rule sanitizeMessage_Inr)
  then show ?thesis
    by (induction rule: list_all2_induct) simp_all
qed

lemma completionParams_messages:
  "cr_messages (completionParams initRequest key sanitizedMessages mappedTools) = sanitizedMessages"
  by (simp add: completionParams_def)

lemma handler_complete_completions:
  "hr_completions (handler_complete rt env create fetch rolloutId key params) = [params]"
  by (simp add: handler_complete_result handler_catch_completions Let_def
      split: create_outcome.splits)

lemma handler_try_completions:
  assumes "c \<in> set (hr_completions (handler_try rt env create fetch initRequest key))"
  shows "cr_messages c =
     map (filter (\<lambda>(key, v). key \<in> allowedMessageFields \<and> v \<noteq> JNull))
       (case messages initRequest of None \<Rightarrow> [] | Some ms \<Rightarrow> ms)"
proof (cases "map_throwing sanitizeMessage (case messages initRequest of None \<Rightarrow> [] | Some ms \<Rightarrow> ms)")
  case (Inl thrown)
  with assms show ?thesis
    by (simp add: handler_try_def Let_def handler_catch_completions)
next
  case (Inr sanitizedMessages)
  note sm = sanitizeMessages_Inr [OF Inr]
  show ?thesis
  proof (cases "mapTools (tools initRequest)")
    case (Inl thrown)
    with assms Inr show ?thesis
      by (simp add: handler_try_def Let_def handler_catch_completions)
  next
    case r: (Inr mappedTools)
    with assms Inr have "c = completionParams initRequest key sanitizedMessages mappedTools"
      by (simp add: handler_try_def Let_def handler_complete_completions)
    then show ?thesis
      using sm by (simp add: completionParams_messages)
  qed
qed

lemma handler_completions_from_try:
  assumes "c \<in> set (hr_completions (handler rt env create fetch req))"
  shows "\<exists>initRequest key. safeParse (req_body req) = Inr initRequest \<and>
           messages initRequest \<noteq> None \<and>
           c \<in> set (hr_completions (handler_try rt env create fetch initRequest key))"
proof -
  from assms have ne: "hr_completions (handler rt env create fetch req) \<noteq> []"
    by auto
  then obtain initRequest where p: "safeParse (req_body req) = Inr initRequest"
    and m: "req_method req = Some ''POST''"
    using handler_completions_parsed by blast
  show ?thesis
  proof (cases "messages initRequest = None \<or> messages initRequest = Some []")
    case True
    with p m ne show ?thesis
      by (auto simp add: handler_def Let_def hr_completions_responded)
  next
    case False
    show ?thesis
    proof (cases "resolveApiKey env (api_key initRequest)")
      case None
      with p m ne False show ?thesis
        by (auto simp add: handler_def Let_def hr_completions_responded)
    next
      case (Some key)
      with p m assms False have "c \<in> set (hr_completions (handler_try rt env create fetch initRequest key))"
        by (auto simp add: handler_def Let_def hr_completions_responded split: if_splits)
      with p False show ?thesis by blast
    qed
  qed
qed








lemma buildPayload_tags:
  "p_tags (buildPayload rt info rolloutId) \<noteq> [] \<and>
   hd (p_tags (buildPayload rt info rolloutId)) = ''rollout_id:'' @ rolloutId"
  by (simp add: buildPayload_def Let_def)

lemma buildPayload_message:
  "p_message (buildPayload rt info rolloutId) =
     (case i_message info of Some (JStr s) \<Rightarrow> s | _ \<Rightarrow> [])"
  by (simp add: buildPayload_def Let_def)

lemma buildPayload_program:
  "p_program (buildPayload rt info rolloutId) =
     (case i_program info of
        Some (JStr s) \<Rightarrow> if s = [] then ''eval_protocol'' else s
      | _ \<Rightarrow> ''eval_protocol'')"
  by (simp add: buildPayload_def Let_def or_default_def split: option.splits json.splits)

lemma sendToFireworks_payloads:
  assumes "request \<in> set (fst (sendToFireworks t rt env fetch info))"
  shows "\<exists>rolloutId. getRolloutId t env info = Some rolloutId \<and>
           hq_body request = buildPayload rt info rolloutId"
proof (cases "getRolloutId t env info")
  case None
  then have "fst (sendToFireworks t rt env fetch info) = []"
    by (simp add: sendToFireworks_def)
  with assms show ?thesis
    by simp
next
  case (Some rolloutId)
  then have "fst (sendToFireworks t rt env fetch info) = [] \<or>
      fst (sendToFireworks t rt env fetch info) =
        fst (sendToFireworks_try t fetch (buildPayload rt info rolloutId)
               (strip_trailing_slash (gatewayBaseUrl t)))"
    by (simp add: sendToFireworks_def fst_catch_silently Let_def)
  with assms have "hq_body request = buildPayload rt info rolloutId"
    by (auto simp add: sendToFireworks_try_requests Let_def split: if_splits)
  with Some show ?thesis by simp
qed

subsection \<open>Error classification\<close>







subsection \<open>The status-code table\<close>

text \<open>
  C8: for every error status code \<open>c\<close> from CANCELLED (1) to UNAUTHENTICATED (16) and every
  message \<open>m\<close>, \<open>exceptionForStatusCode c m\<close> is a non-null EvalProtocolError whose
  \<open>statusCode\<close> is \<open>c\<close> and whose message is \<open>m\<close>; for OK, FINISHED, RUNNING and
  SCORE_INVALID it is null.
\<close>

theorem exceptionForStatusCode_roundtrip:
  "(1 \<le> StatusCode_value c \<and> StatusCode_value c \<le> 16 \<longrightarrow>
      (\<exists>e. exceptionForStatusCode c m = Some e \<and> e_statusCode e = Some c \<and>
           e_message e = Some m \<and> instanceof (JsObject e) (EvalProtocol EvalProtocolError))) \<and>
   (c \<in> {OK, FINISHED, RUNNING, SCORE_INVALID} \<longrightarrow> exceptionForStatusCode c m = None)"
  by (cases c) (simp_all add: exceptionForStatusCode_def STATUS_CODE_TO_EXCEPTION_def
      EvalProtocolError_new_def)

theorem exceptionForStatusCode_roundtrip_witness:
  "exceptionForStatusCode NOT_FOUND ''gone'' \<noteq> None \<and>
   exceptionForStatusCode FINISHED ''gone'' = None"
  using exceptionForStatusCode_roundtrip [of NOT_FOUND "''gone''"]
    exceptionForStatusCode_roundtrip [of FINISHED "''gone''"]
  by auto

subsection \<open>Best-effort logging\<close>

text \<open>
  C4: whatever the outcome of the log POST, a thrown network error or a response of any
  status, \<open>logToFireworks\<close> and \<open>FireworksTransport.sendToFireworks\<close> return normally
  (their promises are fulfilled, never rejected), and the handler's response, status code
  and body, is the one it gives when the log POST succeeds.
\<close>

theorem log_failure_is_tolerated:
  assumes "settles fetch" and "settles gateway"
  shows "snd (logToFireworks rt env fetch rolloutId message status key) = Fulfilled () \<and>
         snd (sendToFireworks t rt env gateway info) = Fulfilled () \<and>
         hr_response (handler rt env create fetch req) =
           hr_response (handler rt env create always_ok req)"
  using settlesD [OF assms(1)] sendToFireworks_settled [OF assms(2)] handler_settled [OF assms(1)]
  by (simp add: logToFireworks_result)

theorem log_failure_is_tolerated_witness:
  "snd (logToFireworks sample_runtime Map.empty always_500 ''r1'' ''done'' rolloutFinished ''k1'')
     = Fulfilled () \<and>
   snd (sendToFireworks sample_transport sample_runtime Map.empty always_500 sample_info)
     = Fulfilled () \<and>
   hr_response (handler sample_runtime Map.empty always_completes always_500 sample_request) =
     Fulfilled (respond 200 (CompletedBody ''r1''))"
proof -
  have a: "settles (always_500 :: init_log_payload http_request \<Rightarrow> fetch_outcome)"
    by (simp add: settles_def always_500_def)
  have b: "settles (always_500 :: FireworksPayload http_request \<Rightarrow> fetch_outcome)"
    by (simp add: settles_def always_500_def)
  have c: "hr_response (handler sample_runtime Map.empty always_completes always_ok sample_request)
      = Fulfilled (respond 200 (CompletedBody ''r1''))"
    by code_simp
  show ?thesis
    using log_failure_is_tolerated [OF a b, of sample_runtime Map.empty "''r1''" "''done''"
        rolloutFinished "''k1''" sample_transport sample_info always_completes sample_request] c
    by simp
qed

subsection \<open>API key resolution\<close>

text \<open>
  C9: \<open>resolveApiKey\<close> returns the trimmed request key when that key is non-null and
  nonempty after trimming; otherwise the trimmed \<open>FIREWORKS_API_KEY\<close> value when that is
  set and nonempty after trimming; otherwise null. A whitespace-only request key resolves
  as an absent one does. When resolution yields null for a validated request with messages,
  the handler answers 401 and makes no call to the provider.
\<close>

theorem resolveApiKey_precedence:
  "resolveApiKey env requestApiKey =
     (case requestApiKey of
        Some k \<Rightarrow> if trim k \<noteq> [] then Some (trim k)
                  else (case env ''FIREWORKS_API_KEY'' of
                          Some v \<Rightarrow> if trim v \<noteq> [] then Some (trim v) else None
                        | None \<Rightarrow> None)
      | None \<Rightarrow> (case env ''FIREWORKS_API_KEY'' of
                          Some v \<Rightarrow> if trim v \<noteq> [] then Some (trim v) else None
                        | None \<Rightarrow> None)) \<and>
   ((\<forall>c \<in> set k. js_whitespace c) \<longrightarrow> resolveApiKey env (Some k) = resolveApiKey env None) \<and>
   (req_method req = Some ''POST'' \<and> safeParse (req_body req) = Inr initRequest \<and>
    messages initRequest \<noteq> None \<and> messages initRequest \<noteq> Some [] \<and>
    resolveApiKey env (api_key initRequest) = None \<longrightarrow>
      hr_response (handler rt env create fetch req) =
        Fulfilled (respond 401
          (RolloutErrorBody
             ''API key not provided in request or FIREWORKS_API_KEY environment variable''
             (Some (rollout_id (metadata initRequest))))) \<and>
      hr_completions (handler rt env create fetch req) = [])"
proof (intro conjI impI)
  show "resolveApiKey env requestApiKey =
     (case requestApiKey of
        Some k \<Rightarrow> if trim k \<noteq> [] then Some (trim k)
                  else (case env ''FIREWORKS_API_KEY'' of
                          Some v \<Rightarrow> if trim v \<noteq> [] then Some (trim v) else None
                        | None \<Rightarrow> None)
      | None \<Rightarrow> (case env ''FIREWORKS_API_KEY'' of
                          Some v \<Rightarrow> if trim v \<noteq> [] then Some (trim v) else None
                        | None \<Rightarrow> None))"
    by (rule resolveApiKey_spec)
next
  assume "\<forall>c \<in> set k. js_whitespace c"
  then have "trim k = []"
    by (simp only: trim_empty_iff)
  then show "resolveApiKey env (Some k) = resolveApiKey env None"
    by (simp add: resolveApiKey_spec)
next
  assume a: "req_method req = Some ''POST'' \<and> safeParse (req_body req) = Inr initRequest \<and>
    messages initRequest \<noteq> None \<and> messages initRequest \<noteq> Some [] \<and>
    resolveApiKey env (api_key initRequest) = None"
  then show "hr_response (handler rt env create fetch req) =
        Fulfilled (respond 401
          (RolloutErrorBody
             ''API key not provided in request or FIREWORKS_API_KEY environment variable''
             (Some (rollout_id (metadata initRequest)))))"
    by (auto simp add: handler_def Let_def responded_def)
  from a show "hr_completions (handler rt env create fetch req) = []"
    by (auto simp add: handler_def Let_def responded_def)
qed

theorem resolveApiKey_precedence_witness:
  "resolveApiKey (Map.empty(''FIREWORKS_API_KEY'' \<mapsto> '' envkey '')) (Some '' k1 '') = Some ''k1'' \<and>
   resolveApiKey (Map.empty(''FIREWORKS_API_KEY'' \<mapsto> '' envkey '')) (Some ''  '') = Some ''envkey'' \<and>
   resolveApiKey Map.empty (Some ''  '') = None \<and>
   hr_response (handler sample_runtime Map.empty always_completes always_ok blank_key_request) =
     Fulfilled no_key_response \<and>
   hr_completions (handler sample_runtime Map.empty always_completes always_ok blank_key_request) = []"
proof -
  have w: "\<forall>c \<in> set ''  ''. js_whitespace c"
    by (simp add: js_whitespace_def)
  have t1: "trim '' k1 '' = ''k1''" and t2: "trim ''  '' = []" and t3: "trim '' envkey '' = ''envkey''"
    by (simp_all add: trim_def js_whitespace_def)
  have p: "safeParse (req_body blank_key_request) =
      Inr (initRequest_data [(''completion_params'', JObj [(''model'', JStr ''m1'')]),
                             (''messages'', JArr [sample_message]),
                             (''metadata'', sample_metadata),
                             (''api_key'', JStr ''  '')])"
    by code_simp
  have m: "messages (initRequest_data [(''completion_params'', JObj [(''model'', JStr ''m1'')]),
                             (''messages'', JArr [sample_message]),
                             (''metadata'', sample_metadata),
                             (''api_key'', JStr ''  '')]) =
           Some [[(''role'', JStr ''user''), (''content'', JStr ''draw a circle''),
                  (''name'', JNull), (''weight'', JNum 1)]]"
    by code_simp
  have k: "api_key (initRequest_data [(''completion_params'', JObj [(''model'', JStr ''m1'')]),
                             (''messages'', JArr [sample_message]),
                             (''metadata'', sample_metadata),
                             (''api_key'', JStr ''  '')]) = Some ''  ''"
    by code_simp
  have r: "rollout_id (metadata (initRequest_data [(''completion_params'', JObj [(''model'', JStr ''m1'')]),
                             (''messages'', JArr [sample_message]),
                             (''metadata'', sample_metadata),
                             (''api_key'', JStr ''  '')])) = ''r1''"
    by code_simp
  note th = resolveApiKey_precedence
  show ?thesis
    using th [of "Map.empty(''FIREWORKS_API_KEY'' \<mapsto> '' envkey '')" "Some '' k1 ''"]
      th [of "Map.empty(''FIREWORKS_API_KEY'' \<mapsto> '' envkey '')" "Some ''  ''"]
      th [of Map.empty "Some ''  ''" "''  ''" blank_key_request
          "initRequest_data [(''completion_params'', JObj [(''model'', JStr ''m1'')]),
                             (''messages'', JArr [sample_message]),
                             (''metadata'', sample_metadata),
                             (''api_key'', JStr ''  '')]"
          sample_runtime always_completes always_ok]
      w p
    by (simp add: t1 t2 t3 m k r no_key_response_def blank_key_request_def)
qed

subsection \<open>Request validation\<close>

text \<open>
  C5: for every POST request whose body fails \<open>initRequestSchema\<close>, the handler answers
  400 with the validation issues and makes no call to the chat-completion API; a call to
  that API is made only for a body that parses successfully.
\<close>

theorem invalid_body_is_rejected:
  "(req_method req = Some ''POST'' \<and> safeParse (req_body req) = Inl issues \<longrightarrow>
      hr_response (handler rt env create fetch req) =
        Fulfilled (respond 400 (InvalidRequestBody ''Invalid request format: '' issues)) \<and>
      hr_completions (handler rt env create fetch req) = []) \<and>
   (hr_completions (handler rt env create fetch req) \<noteq> [] \<longrightarrow>
      (\<exists>initRequest. safeParse (req_body req) = Inr initRequest))"
proof (intro conjI impI)
  assume a: "req_method req = Some ''POST'' \<and> safeParse (req_body req) = Inl issues"
  then show "hr_response (handler rt env create fetch req) =
        Fulfilled (respond 400 (InvalidRequestBody ''Invalid request format: '' issues))"
    by (simp add: handler_def hr_response_responded)
  from a show "hr_completions (handler rt env create fetch req) = []"
    by (simp add: handler_def hr_completions_responded)
next
  assume "hr_completions (handler rt env create fetch req) \<noteq> []"
  then show "\<exists>initRequest. safeParse (req_body req) = Inr initRequest"
    using handler_completions_parsed by blast
qed

theorem invalid_body_is_rejected_witness:
  "hr_response (handler sample_runtime Map.empty always_completes always_ok invalid_request) =
     Fulfilled (respond 400 (InvalidRequestBody ''Invalid request format: '' invalid_request_issues)) \<and>
   hr_completions (handler sample_runtime Map.empty always_completes always_ok invalid_request) = [] \<and>
   hr_completions (handler sample_runtime Map.empty always_completes always_ok sample_request) \<noteq> [] \<and>
   safeParse (req_body sample_request) \<noteq> Inl []"
proof -
  have p: "safeParse (req_body invalid_request) = Inl invalid_request_issues"
    by code_simp
  have m: "req_method invalid_request = Some ''POST''"
    by (simp add: invalid_request_def)
  have c: "hr_completions (handler sample_runtime Map.empty always_completes always_ok sample_request) \<noteq> []"
    by code_simp
  show ?thesis
    using invalid_body_is_rejected [of invalid_request invalid_request_issues sample_runtime
        Map.empty always_completes always_ok]
      invalid_body_is_rejected [of sample_request "[]" sample_runtime
        Map.empty always_completes always_ok] p m c
    by auto
qed

subsection \<open>Message sanitization\<close>

text \<open>
  C6: every message forwarded to the chat-completion API consists of exactly those key/value
  pairs of the validated message whose key is one of \<open>role\<close>, \<open>content\<close>, \<open>name\<close>,
  \<open>tool_call_id\<close>, \<open>tool_calls\<close>, \<open>function_call\<close> and whose value is neither
  \<open>null\<close> nor \<open>undefined\<close>, in their original order; every other json_field is removed. A
  message whose sanitized form has no \<open>role\<close> makes the sanitization throw the error
  \<open>Message role is required\<close>.
\<close>

theorem messages_are_sanitized:
  "(c \<in> set (hr_completions (handler rt env create fetch req)) \<longrightarrow>
      (\<exists>initRequest ms. safeParse (req_body req) = Inr initRequest \<and>
         messages initRequest = Some ms \<and>
         cr_messages c =
           map (filter (\<lambda>(key, v).
                  key \<in> {''role'', ''content'', ''name'', ''tool_call_id'', ''tool_calls'',
                          ''function_call''} \<and> v \<noteq> JNull)) ms)) \<and>
   (map_of (filter (\<lambda>(key, v).
              key \<in> {''role'', ''content'', ''name'', ''tool_call_id'', ''tool_calls'',
                      ''function_call''} \<and> v \<noteq> JNull) message) ''role'' = None \<longrightarrow>
      sanitizeMessage message = Inl (Error_new ''Message role is required''))"
proof (intro conjI impI)
  assume "c \<in> set (hr_completions (handler rt env create fetch req))"
  then obtain initRequest key where p: "safeParse (req_body req) = Inr initRequest"
    and m: "messages initRequest \<noteq> None"
    and c: "c \<in> set (hr_completions (handler_try rt env create fetch initRequest key))"
    using handler_completions_from_try by blast
  from m obtain ms where ms: "messages initRequest = Some ms" by auto
  from handler_try_completions [OF c] ms p
  show "\<exists>initRequest ms. safeParse (req_body req) = Inr initRequest \<and>
         messages initRequest = Some ms \<and>
         cr_messages c =
           map (filter (\<lambda>(key, v).
                  key \<in> {''role'', ''content'', ''name'', ''tool_call_id'', ''tool_calls'',
                          ''function_call''} \<and> v \<noteq> JNull)) ms"
    by (auto simp add: allowedMessageFields_def)
next
  assume "map_of (filter (\<lambda>(key, v).
              key \<in> {''role'', ''content'', ''name'', ''tool_call_id'', ''tool_calls'',
                      ''function_call''} \<and> v \<noteq> JNull) message) ''role'' = None"
  then show "sanitizeMessage message = Inl (Error_new ''Message role is required'')"
    by (simp add: sanitizeMessage_def allowedMessageFields_def Let_def)
qed

theorem messages_are_sanitized_witness:
  "hr_completions (handler sample_runtime Map.empty always_completes always_ok sample_request) =
     [sample_completion] \<and>
   cr_messages sample_completion =
     [[(''role'', JStr ''user''), (''content'', JStr ''draw a circle'')]] \<and>
   sanitizeMessage [(''content'', JStr ''hello''), (''role'', JNull)] =
     Inl (Error_new ''Message role is required'')"
proof -
  have c: "hr_completions (handler sample_runtime Map.empty always_completes always_ok sample_request) =
     [sample_completion]"
    by code_simp
  have m: "cr_messages sample_completion =
     [[(''role'', JStr ''user''), (''content'', JStr ''draw a circle'')]]"
    by (simp add: sample_completion_def)
  show ?thesis
    using messages_are_sanitized [of sample_completion sample_runtime Map.empty always_completes
        always_ok sample_request "[(''content'', JStr ''hello''), (''role'', JNull)]"] c m
    by simp
qed

subsection \<open>Waiting for the trace log\<close>




subsection \<open>Delivery by the transport\<close>

text \<open>
  C3: when the transport sends a record, it makes one POST of the payload to the path
  \<open>/logs\<close> under the gateway base URL (taken without a trailing slash), and a second POST
  of the same payload and headers to \<open>/v1/logs\<close> if and only if the first response has
  status 404. No other response or failure leads to a second request, and there are never
  more than two.
\<close>

theorem single_post_one_fallback:
  "(gatewayBaseUrl t \<noteq> [] \<and> getRolloutId t env info = Some rolloutId \<longrightarrow>
      fst (sendToFireworks t rt env fetch info) =
        (let baseUrl = strip_trailing_slash (gatewayBaseUrl t);
             payload = buildPayload rt info rolloutId;
             request = \<lparr>hq_url = baseUrl @ ''/logs'', hq_method = ''POST'',
                         hq_headers = transport_headers t, hq_body = payload\<rparr>;
             retry = \<lparr>hq_url = baseUrl @ ''/v1/logs'', hq_method = ''POST'',
                       hq_headers = transport_headers t, hq_body = payload\<rparr>
         in if fetch request = Responded 404 then [request, retry] else [request])) \<and>
   length (fst (sendToFireworks t rt env fetch info)) \<le> 2"
proof (intro conjI impI)
  assume a: "gatewayBaseUrl t \<noteq> [] \<and> getRolloutId t env info = Some rolloutId"
  then have "rolloutId \<noteq> []"
    using getRolloutId_nonempty by blast
  with a show "fst (sendToFireworks t rt env fetch info) =
        (let baseUrl = strip_trailing_slash (gatewayBaseUrl t);
             payload = buildPayload rt info rolloutId;
             request = \<lparr>hq_url = baseUrl @ ''/logs'', hq_method = ''POST'',
                         hq_headers = transport_headers t, hq_body = payload\<rparr>;
             retry = \<lparr>hq_url = baseUrl @ ''/v1/logs'', hq_method = ''POST'',
                       hq_headers = transport_headers t, hq_body = payload\<rparr>
         in if fetch request = Responded 404 then [request, retry] else [request])"
    by (simp add: sendToFireworks_def fst_catch_silently sendToFireworks_try_requests Let_def)
next
  show "length (fst (sendToFireworks t rt env fetch info)) \<le> 2"
    by (simp add: sendToFireworks_def fst_catch_silently sendToFireworks_try_requests Let_def
        split: option.splits)
qed

theorem single_post_one_fallback_witness:
  "map hq_url (fst (sendToFireworks sample_transport sample_runtime Map.empty not_found_then_ok
      sample_info)) =
     [''https://tracing.fireworks.ai/logs'', ''https://tracing.fireworks.ai/v1/logs''] \<and>
   map hq_url (fst (sendToFireworks sample_transport sample_runtime Map.empty always_500
      sample_info)) =
     [''https://tracing.fireworks.ai/logs'']"
proof -
  have g: "gatewayBaseUrl sample_transport = ''https://tracing.fireworks.ai''"
    by code_simp
  have s: "strip_trailing_slash ''https://tracing.fireworks.ai'' = ''https://tracing.fireworks.ai''"
    by code_simp
  have r: "getRolloutId sample_transport Map.empty sample_info = Some ''r1''"
    by code_simp
  show ?thesis
    using single_post_one_fallback [of sample_transport Map.empty sample_info "''r1''"
        sample_runtime not_found_then_ok]
      single_post_one_fallback [of sample_transport Map.empty sample_info "''r1''"
        sample_runtime always_500]
    by (simp add: g s r Let_def not_found_then_ok_def always_500_def)
qed

text \<open>
  C10: \<open>sendToFireworks\<close> issues no request and drops the record when no rollout id is
  available, that is when \<open>info.rollout_id\<close> is not a string and the \<open>EP_ROLLOUT_ID\<close>
  variable is unset. In every request it does issue, the payload's tags are nonempty and
  start with \<open>rollout_id:\<close> followed by the resolved id, the payload's message is the log
  message when that is a string and the empty string otherwise, and the payload's program is
  \<open>eval_protocol\<close> unless the record names a program.
\<close>

theorem no_rollout_id_no_request:
  "(rolloutIdEnv t = ''EP_ROLLOUT_ID'' \<and> (\<forall>s. i_rollout_id info \<noteq> Some (JStr s)) \<and>
    env ''EP_ROLLOUT_ID'' = None \<longrightarrow>
      sendToFireworks t rt env fetch info = ([], Fulfilled ())) \<and>
   (\<forall>request \<in> set (fst (sendToFireworks t rt env fetch info)).
      \<exists>rolloutId. getRolloutId t env info = Some rolloutId \<and>
        p_tags (hq_body request) \<noteq> [] \<and>
        hd (p_tags (hq_body request)) = ''rollout_id:'' @ rolloutId \<and>
        p_message (hq_body request) =
          (case i_message info of Some (JStr s) \<Rightarrow> s | _ \<Rightarrow> []) \<and>
        p_program (hq_body request) =
          (case i_program info of
             Some (JStr s) \<Rightarrow> if s = [] then ''eval_protocol'' else s
           | _ \<Rightarrow> ''eval_protocol''))"
proof (intro conjI impI ballI)
  assume a: "rolloutIdEnv t = ''EP_ROLLOUT_ID'' \<and> (\<forall>s. i_rollout_id info \<noteq> Some (JStr s)) \<and>
    env ''EP_ROLLOUT_ID'' = None"
  then have "nonempty_string (i_rollout_id info) = None"
    by (cases "i_rollout_id info" rule: nonempty_string.cases) auto
  with a have "getRolloutId t env info = None"
    by (simp add: getRolloutId_def or_str_def)
  then show "sendToFireworks t rt env fetch info = ([], Fulfilled ())"
    by (simp add: sendToFireworks_def)
next
  fix request
  assume "request \<in> set (fst (sendToFireworks t rt env fetch info))"
  then obtain rolloutId where "getRolloutId t env info = Some rolloutId"
    and "hq_body request = buildPayload rt info rolloutId"
    using sendToFireworks_payloads by blast
  then show "\<exists>rolloutId. getRolloutId t env info = Some rolloutId \<and>
        p_tags (hq_body request) \<noteq> [] \<and>
        hd (p_tags (hq_body request)) = ''rollout_id:'' @ rolloutId \<and>
        p_message (hq_body request) =
          (case i_message info of Some (JStr s) \<Rightarrow> s | _ \<Rightarrow> []) \<and>
        p_program (hq_body request) =
          (case i_program info of
             Some (JStr s) \<Rightarrow> if s = [] then ''eval_protocol'' else s
           | _ \<Rightarrow> ''eval_protocol'')"
    using buildPayload_tags buildPayload_message buildPayload_program by simp
qed

theorem no_rollout_id_no_request_witness:
  "sendToFireworks sample_transport sample_runtime Map.empty always_ok sample_info_no_rollout =
     ([], Fulfilled ()) \<and>
   map (p_tags \<circ> hq_body)
     (fst (sendToFireworks sample_transport sample_runtime Map.empty always_ok sample_info)) =
     [[''rollout_id:r1'']] \<and>
   map (p_program \<circ> hq_body)
     (fst (sendToFireworks sample_transport sample_runtime Map.empty always_ok sample_info)) =
     [''eval_protocol'']"
proof -
  have e: "rolloutIdEnv sample_transport = ''EP_ROLLOUT_ID''"
    by code_simp
  have i: "i_rollout_id sample_info_no_rollout = Some (JNum 7)"
    by (simp add: sample_info_no_rollout_def)
  have t: "map (p_tags \<circ> hq_body)
     (fst (sendToFireworks sample_transport sample_runtime Map.empty always_ok sample_info)) =
     [[''rollout_id:r1'']]"
    by code_simp
  have p: "map (p_program \<circ> hq_body)
     (fst (sendToFireworks sample_transport sample_runtime Map.empty always_ok sample_info)) =
     [''eval_protocol'']"
    by code_simp
  show ?thesis
    using no_rollout_id_no_request [of sample_transport sample_info_no_rollout Map.empty
        sample_runtime always_ok] e i t p
    by simp
qed

end
